theory Spec2Isabelle
  imports Main
begin

section \<open>Data model (types/Piece.ts, types/Board.ts, types/Move.ts)\<close>

datatype PieceType = Pawn | Knight | Bishop | Rook | Queen | King

datatype PieceColor = White | Black

record Piece =
  type :: PieceType
  color :: PieceColor
  hasMoved :: bool

record BoardCoord =
  row :: int
  col :: int

text \<open>\<^verbatim>\<open>BoardState = (Piece | null)[][]\<close>: rows of squares, \<open>None\<close> for \<^verbatim>\<open>null\<close>.\<close>

type_synonym Square = "Piece option"

type_synonym BoardState = "Square list list"

datatype CastleSide = Kingside | Queenside

record Move =
  "from" :: BoardCoord
  to :: BoardCoord
  piece :: Piece
  captured :: "Piece option"
  isEnPassant :: bool
  isCastling :: "CastleSide option"
  promotion :: "PieceType option"

definition opponent :: "PieceColor \<Rightarrow> PieceColor" where
  "opponent c = (if c = White then Black else White)"

subsection \<open>Reading and writing squares\<close>

text \<open>
  \<^verbatim>\<open>board[r][c]\<close>. Every index the engine produces is guarded by
  \<^verbatim>\<open>isValidCoord\<close>, a scan bound or a fixed castling column; outside the stored
  grid the read yields \<open>None\<close> here (JavaScript yields \<^verbatim>\<open>undefined\<close> for a column and
  throws for a row), and the results below are stated for coordinates on the grid.
\<close>

definition sq :: "BoardState \<Rightarrow> int \<Rightarrow> int \<Rightarrow> Square" where
  "sq board r c =
     (if 0 \<le> r \<and> r < int (length board) \<and> 0 \<le> c \<and> c < int (length (board ! nat r))
      then board ! nat r ! nat c else None)"

text \<open>\<^verbatim>\<open>board[r][c] = v\<close>, an in-place write: the updated board is returned.\<close>

definition setSq :: "BoardState \<Rightarrow> int \<Rightarrow> int \<Rightarrow> Square \<Rightarrow> BoardState" where
  "setSq board r c v =
     (if 0 \<le> r \<and> r < int (length board) \<and> 0 \<le> c \<and> c < int (length (board ! nat r))
      then board[nat r := (board ! nat r)[nat c := v]] else board)"

definition isValidCoord :: "BoardCoord \<Rightarrow> bool" where
  "isValidCoord coord = (row coord \<ge> 0 \<and> row coord \<le> 7 \<and> col coord \<ge> 0 \<and> col coord \<le> 7)"

text \<open>An 8 by 8 grid, the shape \<^verbatim>\<open>createInitialBoard\<close> builds and every copy keeps.\<close>

definition wellFormed :: "BoardState \<Rightarrow> bool" where
  "wellFormed board = (length board = 8 \<and> list_all (\<lambda>r. length r = 8) board)"

subsection \<open>utils/BoardUtils.ts\<close>

definition cloneBoard :: "BoardState \<Rightarrow> BoardState" where
  "cloneBoard board =
     map (\<lambda>r. map (\<lambda>p. case p of Some x \<Rightarrow>
            Some \<lparr>type = type x, color = color x, hasMoved = hasMoved x\<rparr> | None \<Rightarrow> None) r) board"

definition pieceOrder :: "PieceType list" where
  "pieceOrder = [Rook, Knight, Bishop, Queen, King, Bishop, Knight, Rook]"

definition createInitialBoard :: BoardState where
  "createInitialBoard =
     (let empty = replicate 8 (replicate 8 None);
          pawns = foldl (\<lambda>b i.
                    setSq (setSq b 1 (int i) (Some \<lparr>type = Pawn, color = White, hasMoved = False\<rparr>))
                      6 (int i) (Some \<lparr>type = Pawn, color = Black, hasMoved = False\<rparr>))
                    empty [0..<8]
      in foldl (\<lambda>b i.
           setSq (setSq b 0 (int i) (Some \<lparr>type = pieceOrder ! i, color = White, hasMoved = False\<rparr>))
             7 (int i) (Some \<lparr>type = pieceOrder ! i, color = Black, hasMoved = False\<rparr>))
           pawns [0..<8])"

section \<open>Special-move handlers\<close>

subsection \<open>rules/special-moves/CastlingHandler.ts: execution and reversal\<close>

text \<open>
  \<^verbatim>\<open>executeCastling\<close> copies the board (\<^verbatim>\<open>board.map(row => row.map(...))\<close>), works on the
  copy and returns it; its argument is not written to.
\<close>

definition executeCastling :: "BoardState \<Rightarrow> Move \<Rightarrow> BoardState" where
  "executeCastling board move =
     (if isCastling move = None then board
      else
        let newBoard = cloneBoard board;
            r = row (from move);
            isKingside = (isCastling move = Some Kingside);
            newBoard = (case sq newBoard (row (from move)) (col (from move)) of
                          Some king \<Rightarrow>
                            setSq (setSq newBoard (row (to move)) (col (to move))
                                     (Some (king\<lparr>hasMoved := True\<rparr>)))
                              (row (from move)) (col (from move)) None
                        | None \<Rightarrow> newBoard);
            rookFromCol = (if isKingside then 7 else 0);
            rookToCol = (if isKingside then 5 else 3)
        in (case sq newBoard r rookFromCol of
              Some rook \<Rightarrow>
                setSq (setSq newBoard r rookToCol (Some (rook\<lparr>hasMoved := True\<rparr>)))
                  r rookFromCol None
            | None \<Rightarrow> newBoard))"

text \<open>\<^verbatim>\<open>unmakeCastling\<close> writes to the board it is given.\<close>

definition unmakeCastling :: "BoardState \<Rightarrow> Move \<Rightarrow> BoardState" where
  "unmakeCastling board move =
     (let isKingside = (isCastling move = Some Kingside);
          r = row (from move);
          kingToCol = col (from move);
          rookFromCol = (if isKingside then 7 else 0);
          rookToCol = (if isKingside then 5 else 3)
      in (case (sq board (row (to move)) (col (to move)), sq board r rookToCol) of
            (Some king, Some rook) \<Rightarrow>
              setSq (setSq (setSq (setSq board r kingToCol (Some (king\<lparr>hasMoved := False\<rparr>)))
                              (row (to move)) (col (to move)) None)
                       r rookFromCol (Some (rook\<lparr>hasMoved := False\<rparr>)))
                r rookToCol None
          | _ \<Rightarrow> board))"

subsection \<open>rules/special-moves/EnPassantHandler.ts: execution and reversal\<close>

definition executeEnPassant :: "BoardState \<Rightarrow> Move \<Rightarrow> BoardState" where
  "executeEnPassant board move =
     (if \<not> isEnPassant move then board
      else
        let newBoard = cloneBoard board;
            newBoard = (case sq newBoard (row (from move)) (col (from move)) of
                          Some pawn \<Rightarrow>
                            setSq (setSq newBoard (row (to move)) (col (to move))
                                     (Some (pawn\<lparr>hasMoved := True\<rparr>)))
                              (row (from move)) (col (from move)) None
                        | None \<Rightarrow> newBoard)
        in setSq newBoard (row (from move)) (col (to move)) None)"

definition unmakeEnPassant :: "BoardState \<Rightarrow> Move \<Rightarrow> BoardState" where
  "unmakeEnPassant board move =
     (case sq board (row (to move)) (col (to move)) of
        Some movingPawn \<Rightarrow>
          setSq (setSq (setSq board (row (from move)) (col (from move))
                          (Some (movingPawn\<lparr>hasMoved := hasMoved (piece move)\<rparr>)))
                   (row (to move)) (col (to move)) None)
            (row (from move)) (col (to move)) (captured move)
      | None \<Rightarrow> board)"

subsection \<open>rules/special-moves/PromotionHandler.ts\<close>

definition promotionRank :: "PieceColor \<Rightarrow> int" where
  "promotionRank c = (if c = White then 7 else 0)"

definition needsPromotion :: "Piece \<Rightarrow> BoardCoord \<Rightarrow> bool" where
  "needsPromotion p t = (if type p \<noteq> Pawn then False else row t = promotionRank (color p))"

text \<open>\<^verbatim>\<open>executePromotion\<close> also works on a copy and returns it.\<close>

definition executePromotion :: "BoardState \<Rightarrow> BoardCoord \<Rightarrow> PieceType \<Rightarrow> BoardState" where
  "executePromotion board position newPieceType =
     (let newBoard = cloneBoard board
      in (case sq newBoard (row position) (col position) of
            Some p \<Rightarrow>
              (if type p = Pawn
               then setSq newBoard (row position) (col position) (Some (p\<lparr>type := newPieceType\<rparr>))
               else newBoard)
          | None \<Rightarrow> newBoard))"

text \<open>\<^verbatim>\<open>unmakePromotion\<close> writes to the board it is given.\<close>

definition unmakePromotion :: "BoardState \<Rightarrow> BoardCoord \<Rightarrow> BoardState" where
  "unmakePromotion board position =
     (case sq board (row position) (col position) of
        Some p \<Rightarrow> setSq board (row position) (col position) (Some (p\<lparr>type := Pawn\<rparr>))
      | None \<Rightarrow> board)"

section \<open>services/MoveExecutor.ts\<close>

text \<open>
  The private helpers write to the board they are given; the model returns the board as it
  stands after the call.
\<close>

definition makeNormalMove :: "BoardState \<Rightarrow> Move \<Rightarrow> BoardState" where
  "makeNormalMove board move =
     (case sq board (row (from move)) (col (from move)) of
        None \<Rightarrow> board
      | Some p \<Rightarrow>
          setSq (setSq board (row (to move)) (col (to move)) (Some (p\<lparr>hasMoved := True\<rparr>)))
            (row (from move)) (col (from move)) None)"

definition unmakeNormalMove :: "BoardState \<Rightarrow> Move \<Rightarrow> BoardState" where
  "unmakeNormalMove board move =
     (case sq board (row (to move)) (col (to move)) of
        None \<Rightarrow> board
      | Some movedPiece \<Rightarrow>
          setSq (setSq board (row (from move)) (col (from move))
                   (Some (movedPiece\<lparr>hasMoved := hasMoved (piece move)\<rparr>)))
            (row (to move)) (col (to move)) (captured move))"

text \<open>
  \<^verbatim>\<open>_makeMove\<close> calls the three handlers as statements: the board each of them returns is
  dropped, and the board that \<^verbatim>\<open>_makeMove\<close> was given carries on.
\<close>

definition makeMove :: "BoardState \<Rightarrow> Move \<Rightarrow> BoardState" where
  "makeMove board move =
     (let board1 =
            (if isCastling move \<noteq> None then (let dropped = executeCastling board move in board)
             else if isEnPassant move then (let dropped = executeEnPassant board move in board)
             else makeNormalMove board move)
      in (case promotion move of
            Some newPieceType \<Rightarrow>
              (let dropped = executePromotion board1 (to move) newPieceType in board1)
          | None \<Rightarrow> board1))"

definition unmakeMove :: "BoardState \<Rightarrow> Move \<Rightarrow> BoardState" where
  "unmakeMove board move =
     (let board1 = (if promotion move \<noteq> None then unmakePromotion board (to move) else board)
      in if isCastling move \<noteq> None then unmakeCastling board1 move
         else if isEnPassant move then unmakeEnPassant board1 move
         else unmakeNormalMove board1 move)"

definition executeMove :: "BoardState \<Rightarrow> Move \<Rightarrow> BoardState" where
  "executeMove board move = makeMove (cloneBoard board) move"

text \<open>
  The attack test is a callback that may keep a cache: it takes the cache and returns it
  updated. Probe mode returns the verdict, the board as it is left, and the cache.
\<close>

type_synonym 'c AttackTest = "BoardState \<Rightarrow> BoardCoord \<Rightarrow> PieceColor \<Rightarrow> 'c \<Rightarrow> bool \<times> 'c"

definition wouldLeaveKingInCheck ::
  "BoardState \<Rightarrow> Move \<Rightarrow> BoardCoord \<Rightarrow> 'c AttackTest \<Rightarrow> 'c \<Rightarrow> bool \<times> BoardState \<times> 'c" where
  "wouldLeaveKingInCheck board move kingPos isSquareAttacked cache =
     (let board1 = makeMove board move;
          finalKingPos = (if type (piece move) = King then to move else kingPos);
          opponentColor = (if color (piece move) = White then Black else White);
          (isCheck, cache1) = isSquareAttacked board1 finalKingPos opponentColor cache;
          board2 = unmakeMove board1 move
      in (isCheck, board2, cache1))"

section \<open>Piece validators (rules/validators)\<close>

text \<open>
  The ray loops of the rook and bishop: \<^verbatim>\<open>while (isValidCoord(currentPos)) { push; step }\<close>.
  The directions are the literal unit vectors of the source, never \<open>(0, 0)\<close>; the second
  conjunct only makes the recursion total.
\<close>

function walk :: "int \<Rightarrow> int \<Rightarrow> int \<Rightarrow> int \<Rightarrow> BoardCoord list" where
  "walk r c dRow dCol =
     (if isValidCoord \<lparr>row = r, col = c\<rparr> \<and> (dRow \<noteq> 0 \<or> dCol \<noteq> 0)
      then \<lparr>row = r, col = c\<rparr> # walk (r + dRow) (c + dCol) dRow dCol
      else [])"
  by pat_completeness auto
termination
  by (relation "measure (\<lambda>(r, c, dRow, dCol).
        nat (if dRow > 0 then 8 - r else if dRow < 0 then r + 1
             else if dCol > 0 then 8 - c else c + 1))")
     (auto simp: isValidCoord_def)

declare walk.simps [simp del]

definition rays :: "BoardCoord \<Rightarrow> (int \<times> int) list \<Rightarrow> BoardCoord list" where
  "rays f directions =
     concat (map (\<lambda>(dRow, dCol). walk (row f + dRow) (col f + dCol) dRow dCol) directions)"

definition rookPotentialMoves :: "BoardCoord \<Rightarrow> BoardCoord list" where
  "rookPotentialMoves f = rays f [(1, 0), (-1, 0), (0, 1), (0, -1)]"

definition bishopPotentialMoves :: "BoardCoord \<Rightarrow> BoardCoord list" where
  "bishopPotentialMoves f = rays f [(1, 1), (1, -1), (-1, 1), (-1, -1)]"

definition queenPotentialMoves :: "BoardCoord \<Rightarrow> BoardCoord list" where
  "queenPotentialMoves f = bishopPotentialMoves f @ rookPotentialMoves f"

definition offsetMoves :: "BoardCoord \<Rightarrow> (int \<times> int) list \<Rightarrow> BoardCoord list" where
  "offsetMoves f offsets =
     filter isValidCoord (map (\<lambda>(dRow, dCol). \<lparr>row = row f + dRow, col = col f + dCol\<rparr>) offsets)"

definition knightPotentialMoves :: "BoardCoord \<Rightarrow> BoardCoord list" where
  "knightPotentialMoves f =
     offsetMoves f [(1, 2), (1, -2), (-1, 2), (-1, -2), (2, 1), (2, -1), (-2, 1), (-2, -1)]"

definition kingPotentialMoves :: "BoardCoord \<Rightarrow> BoardCoord list" where
  "kingPotentialMoves f =
     offsetMoves f (filter (\<lambda>(dRow, dCol). \<not> (dRow = 0 \<and> dCol = 0))
                      (concat (map (\<lambda>dRow. map (\<lambda>dCol. (dRow, dCol)) [-1, 0, 1]) [-1, 0, 1])))"

definition pawnPotentialMoves :: "PieceColor \<Rightarrow> BoardCoord \<Rightarrow> BoardCoord list" where
  "pawnPotentialMoves c f =
     (let direction = (if c = White then 1 else -1);
          startRow = (if c = White then 1 else 6);
          oneStep = \<lparr>row = row f + direction, col = col f\<rparr>;
          twoSteps = \<lparr>row = row f + 2 * direction, col = col f\<rparr>;
          captureLeft = \<lparr>row = row f + direction, col = col f - 1\<rparr>;
          captureRight = \<lparr>row = row f + direction, col = col f + 1\<rparr>
      in (if isValidCoord oneStep then [oneStep] else [])
         @ (if row f = startRow \<and> isValidCoord twoSteps then [twoSteps] else [])
         @ (if isValidCoord captureLeft then [captureLeft] else [])
         @ (if isValidCoord captureRight then [captureRight] else []))"

text \<open>
  \<^verbatim>\<open>isPathClear\<close>: walk from the square after \<open>from\<close> until \<open>to\<close> is reached, failing on
  the first occupied square. Its callers have checked that the two squares share a line,
  so the walk stays between them. Off the grid the source reads \<^verbatim>\<open>undefined\<close>
  (\<^verbatim>\<open>!== null\<close>, so it returns false) or throws; with a zero step it is only entered
  when \<open>from = to\<close>, where the loop body never runs.
\<close>

function pathLoop :: "BoardState \<Rightarrow> int \<Rightarrow> int \<Rightarrow> int \<Rightarrow> int \<Rightarrow> BoardCoord \<Rightarrow> bool" where
  "pathLoop board currentRow currentCol dRow dCol t =
     (if currentRow \<noteq> row t \<or> currentCol \<noteq> col t
      then (if \<not> isValidCoord \<lparr>row = currentRow, col = currentCol\<rparr> \<or> (dRow = 0 \<and> dCol = 0)
            then False
            else if sq board currentRow currentCol \<noteq> None then False
            else pathLoop board (currentRow + dRow) (currentCol + dCol) dRow dCol t)
      else True)"
  by pat_completeness auto
termination
  by (relation "measure (\<lambda>(board, r, c, dRow, dCol, t).
        nat (if dRow > 0 then 8 - r else if dRow < 0 then r + 1
             else if dCol > 0 then 8 - c else c + 1))")
     (auto simp: isValidCoord_def)

declare pathLoop.simps [simp del]

definition isPathClear :: "BoardState \<Rightarrow> BoardCoord \<Rightarrow> BoardCoord \<Rightarrow> bool" where
  "isPathClear board f t =
     (let dRow = sgn (row t - row f); dCol = sgn (col t - col f)
      in pathLoop board (row f + dRow) (col f + dCol) dRow dCol t)"

definition rookIsValidMove :: "BoardState \<Rightarrow> BoardCoord \<Rightarrow> BoardCoord \<Rightarrow> bool" where
  "rookIsValidMove board f t =
     (if row f \<noteq> row t \<and> col f \<noteq> col t then False else isPathClear board f t)"

definition bishopIsValidMove :: "BoardState \<Rightarrow> BoardCoord \<Rightarrow> BoardCoord \<Rightarrow> bool" where
  "bishopIsValidMove board f t =
     (if \<bar>row t - row f\<bar> \<noteq> \<bar>col t - col f\<bar> then False else isPathClear board f t)"

definition queenIsValidMove :: "BoardState \<Rightarrow> BoardCoord \<Rightarrow> BoardCoord \<Rightarrow> bool" where
  "queenIsValidMove board f t = (bishopIsValidMove board f t \<or> rookIsValidMove board f t)"

definition knightIsValidMove :: "BoardState \<Rightarrow> BoardCoord \<Rightarrow> BoardCoord \<Rightarrow> bool" where
  "knightIsValidMove board f t =
     (let rowDiff = \<bar>row t - row f\<bar>; colDiff = \<bar>col t - col f\<bar>
      in (rowDiff = 1 \<and> colDiff = 2) \<or> (rowDiff = 2 \<and> colDiff = 1))"

definition kingIsValidMove :: "BoardState \<Rightarrow> BoardCoord \<Rightarrow> BoardCoord \<Rightarrow> bool" where
  "kingIsValidMove board f t =
     (let rowDiff = \<bar>row t - row f\<bar>; colDiff = \<bar>col t - col f\<bar>
      in rowDiff \<le> 1 \<and> colDiff \<le> 1)"

definition pawnIsValidMove :: "PieceColor \<Rightarrow> BoardState \<Rightarrow> BoardCoord \<Rightarrow> BoardCoord \<Rightarrow> bool" where
  "pawnIsValidMove c board f t =
     (let direction = (if c = White then 1 else -1);
          startRow = (if c = White then 1 else 6);
          rowDiff = row t - row f;
          colDiff = \<bar>col t - col f\<bar>;
          destinationPiece = sq board (row t) (col t)
      in if rowDiff = direction \<and> colDiff = 0 \<and> destinationPiece = None then True
         else if row f = startRow \<and> rowDiff = 2 * direction \<and> colDiff = 0
                 \<and> destinationPiece = None \<and> sq board (row f + direction) (col f) = None
         then True
         else (case destinationPiece of
                 Some d \<Rightarrow> rowDiff = direction \<and> colDiff = 1 \<and> color d \<noteq> c
               | None \<Rightarrow> False))"

text \<open>\<^verbatim>\<open>ValidatorFactory.getValidatorCached\<close>: dispatch on the piece's type (and colour, for pawns).\<close>

definition getPotentialMoves :: "Piece \<Rightarrow> BoardCoord \<Rightarrow> BoardCoord list" where
  "getPotentialMoves p f =
     (case type p of
        Pawn \<Rightarrow> pawnPotentialMoves (color p) f
      | Knight \<Rightarrow> knightPotentialMoves f
      | Bishop \<Rightarrow> bishopPotentialMoves f
      | Rook \<Rightarrow> rookPotentialMoves f
      | Queen \<Rightarrow> queenPotentialMoves f
      | King \<Rightarrow> kingPotentialMoves f)"

definition isValidMove :: "Piece \<Rightarrow> BoardState \<Rightarrow> BoardCoord \<Rightarrow> BoardCoord \<Rightarrow> bool" where
  "isValidMove p board f t =
     (case type p of
        Pawn \<Rightarrow> pawnIsValidMove (color p) board f t
      | Knight \<Rightarrow> knightIsValidMove board f t
      | Bishop \<Rightarrow> bishopIsValidMove board f t
      | Rook \<Rightarrow> rookIsValidMove board f t
      | Queen \<Rightarrow> queenIsValidMove board f t
      | King \<Rightarrow> kingIsValidMove board f t)"

section \<open>Strings built by template literals\<close>

text \<open>\<^verbatim>\<open>`${n}`\<close> for an integer \<open>n\<close>: its decimal digits, with a minus sign when negative.\<close>

fun natStr :: "nat \<Rightarrow> string" where
  "natStr n = (if n < 10 then [''0123456789'' ! n] else natStr (n div 10) @ [''0123456789'' ! (n mod 10)])"

declare natStr.simps [simp del]

definition numStr :: "int \<Rightarrow> string" where
  "numStr i = (if i < 0 then CHR ''-'' # natStr (nat (- i)) else natStr (nat i))"

definition colorStr :: "PieceColor \<Rightarrow> string" where
  "colorStr c = (case c of White \<Rightarrow> ''white'' | Black \<Rightarrow> ''black'')"

section \<open>model/GameState.ts: the state record\<close>

record GameSnapshot =
  snapBoard :: BoardState
  snapCurrentTurn :: PieceColor
  snapMoveHistory :: "Move list"
  snapLastMove :: "Move option"
  snapIsCheck :: bool
  snapIsCheckmate :: bool
  snapIsStalemate :: bool
  snapIsDraw :: bool
  snapWhiteKingPos :: BoardCoord
  snapBlackKingPos :: BoardCoord
  snapHalfMoveClock :: nat
  snapPositionHistory :: "string \<rightharpoonup> nat"

record GameState =
  currentTurn :: PieceColor
  moveHistory :: "Move list"
  lastMove :: "Move option"
  whiteKingPos :: BoardCoord
  blackKingPos :: BoardCoord
  isCheck :: bool
  isCheckmate :: bool
  isStalemate :: bool
  isDraw :: bool
  allLegalMovesForCurrentTurn :: "Move list"
  gameSnapshots :: "GameSnapshot list"
  currentSnapshotIndex :: int
  halfMoveClock :: nat
  positionHistory :: "string \<rightharpoonup> nat"

definition getLastMove :: "GameState \<Rightarrow> Move option" where
  "getLastMove gs = lastMove gs"

definition kingPosOf :: "GameState \<Rightarrow> PieceColor \<Rightarrow> BoardCoord" where
  "kingPosOf gs c = (if c = White then whiteKingPos gs else blackKingPos gs)"

section \<open>model/Game.ts\<close>

subsection \<open>The attack scan\<close>

definition attacksFrom :: "BoardState \<Rightarrow> int \<Rightarrow> int \<Rightarrow> BoardCoord \<Rightarrow> PieceColor \<Rightarrow> bool" where
  "attacksFrom board r c pos clr =
     (case sq board r c of
        None \<Rightarrow> False
      | Some p \<Rightarrow>
          if color p \<noteq> clr then False
          else if type p = Pawn
          then (let dir = (if clr = White then 1 else -1)
                in r + dir = row pos \<and> (c - 1 = col pos \<or> c + 1 = col pos))
          else isValidMove p board \<lparr>row = r, col = c\<rparr> pos)"

text \<open>The nested scan returns true at the first attacker it meets, false when there is none.\<close>

definition calculateIsSquareAttacked :: "BoardState \<Rightarrow> BoardCoord \<Rightarrow> PieceColor \<Rightarrow> bool" where
  "calculateIsSquareAttacked board pos clr =
     list_ex (\<lambda>r. list_ex (\<lambda>c. attacksFrom board r c pos clr) [0..7]) [0..7]"

subsection \<open>The pass-scoped cache\<close>

type_synonym AttackCache = "string \<rightharpoonup> bool"

definition tempCacheKey :: "BoardCoord \<Rightarrow> PieceColor \<Rightarrow> string" where
  "tempCacheKey p c = numStr (row p) @ '','' @ numStr (col p) @ '':'' @ colorStr c"

definition isAttackedDuringSim :: "AttackCache AttackTest" where
  "isAttackedDuringSim b p c moveGenCache =
     (case moveGenCache (tempCacheKey p c) of
        Some hit \<Rightarrow> (hit, moveGenCache)
      | None \<Rightarrow>
          (let result = calculateIsSquareAttacked b p c
           in (result, moveGenCache(tempCacheKey p c \<mapsto> result))))"

subsection \<open>Candidate moves of one piece\<close>

text \<open>
  The generator probes on the board it was given; each function returns its result, the board
  as the probes leave it, and the cache.
\<close>

definition validateMoveLite ::
  "Piece \<Rightarrow> BoardState \<Rightarrow> BoardCoord \<Rightarrow> BoardCoord \<Rightarrow> GameState \<Rightarrow> AttackCache
     \<Rightarrow> Move option \<times> BoardState \<times> AttackCache" where
  "validateMoveLite p board f t gameState moveGenCache =
     (let destinationPiece = sq board (row t) (col t)
      in if (case destinationPiece of Some d \<Rightarrow> color d = color p | None \<Rightarrow> False)
         then (None, board, moveGenCache)
         else
           let kingPos = (if color p = White then whiteKingPos gameState else blackKingPos gameState);
               pieceSnapshot = \<lparr>type = type p, color = color p, hasMoved = hasMoved p\<rparr>;
               move = \<lparr>from = f, to = t, piece = pieceSnapshot, captured = destinationPiece,
                       isEnPassant = False, isCastling = None,
                       promotion = (if needsPromotion p t then Some Queen else None)\<rparr>;
               (wouldBeInCheck, board1, cache1) =
                  wouldLeaveKingInCheck board move kingPos isAttackedDuringSim moveGenCache
           in if wouldBeInCheck then (None, board1, cache1) else (Some move, board1, cache1))"

definition generateMovesForPiece ::
  "BoardState \<Rightarrow> Piece \<Rightarrow> BoardCoord \<Rightarrow> GameState \<Rightarrow> AttackCache
     \<Rightarrow> Move list \<times> BoardState \<times> AttackCache" where
  "generateMovesForPiece board p f gameState moveGenCache =
     foldl (\<lambda>(moves, b, cache) t.
              if \<not> isValidMove p b f t then (moves, b, cache)
              else (case validateMoveLite p b f t gameState cache of
                      (Some validated, b1, cache1) \<Rightarrow> (moves @ [validated], b1, cache1)
                    | (None, b1, cache1) \<Rightarrow> (moves, b1, cache1)))
       ([], board, moveGenCache) (getPotentialMoves p f)"

subsection \<open>rules/special-moves: eligibility\<close>

fun anyAttacked ::
  "'c AttackTest \<Rightarrow> BoardState \<Rightarrow> int \<Rightarrow> PieceColor \<Rightarrow> int list \<Rightarrow> 'c \<Rightarrow> bool \<times> 'c" where
  "anyAttacked isSquareAttacked board r opp [] cache = (False, cache)"
| "anyAttacked isSquareAttacked board r opp (c # cols) cache =
     (case isSquareAttacked board \<lparr>row = r, col = c\<rparr> opp cache of
        (True, cache1) \<Rightarrow> (True, cache1)
      | (False, cache1) \<Rightarrow> anyAttacked isSquareAttacked board r opp cols cache1)"

text \<open>\<^verbatim>\<open>canCastle\<close> returns \<^verbatim>\<open>{ valid: false }\<close> (\<open>None\<close>) or \<^verbatim>\<open>{ valid: true, move }\<close>.\<close>

definition canCastle ::
  "BoardState \<Rightarrow> Piece \<Rightarrow> BoardCoord \<Rightarrow> BoardCoord \<Rightarrow> 'c AttackTest \<Rightarrow> 'c \<Rightarrow> Move option \<times> 'c" where
  "canCastle board king f t isSquareAttacked cache =
     (if hasMoved king then (None, cache)
      else
        let r = row f;
            isKingside = (col t > col f);
            correctKingCol = (if isKingside then 6 else 2)
        in if row t \<noteq> r \<or> col t \<noteq> correctKingCol then (None, cache)
           else
             let rookCol = (if isKingside then 7 else 0)
             in (case sq board r rookCol of
                   None \<Rightarrow> (None, cache)
                 | Some rook \<Rightarrow>
                     if type rook \<noteq> Rook \<or> color rook \<noteq> color king \<or> hasMoved rook
                     then (None, cache)
                     else if list_ex (\<lambda>c. sq board r c \<noteq> None) (if isKingside then [5, 6] else [1, 2, 3])
                     then (None, cache)
                     else
                       let opponentColor = (if color king = White then Black else White);
                           squaresToCheck = (if isKingside then [4, 5, 6] else [2, 3, 4])
                       in (case anyAttacked isSquareAttacked board r opponentColor squaresToCheck cache of
                             (True, cache1) \<Rightarrow> (None, cache1)
                           | (False, cache1) \<Rightarrow>
                               (Some \<lparr>from = f, to = \<lparr>row = r, col = correctKingCol\<rparr>, piece = king,
                                      captured = None, isEnPassant = False,
                                      isCastling = Some (if isKingside then Kingside else Queenside),
                                      promotion = None\<rparr>, cache1))))"

definition isEnPassantMove ::
  "Piece \<Rightarrow> BoardState \<Rightarrow> BoardCoord \<Rightarrow> BoardCoord \<Rightarrow> Move option \<Rightarrow> bool" where
  "isEnPassantMove pawn board f t lastMoveArg =
     (case lastMoveArg of
        None \<Rightarrow> False
      | Some lastMv \<Rightarrow>
          if type (piece lastMv) \<noteq> Pawn then False
          else if \<bar>row (to lastMv) - row (from lastMv)\<bar> \<noteq> 2 then False
          else if row f \<noteq> (if color pawn = White then 4 else 3) then False
          else if row t - row f \<noteq> (if color pawn = White then 1 else -1) \<or> \<bar>col t - col f\<bar> \<noteq> 1
          then False
          else if sq board (row t) (col t) \<noteq> None then False
          else col (to lastMv) = col t \<and> row (to lastMv) = row f)"

subsection \<open>Special moves and the whole pass\<close>

definition generateSpecialMoves ::
  "BoardState \<Rightarrow> PieceColor \<Rightarrow> GameState \<Rightarrow> AttackCache \<Rightarrow> Move list \<times> BoardState \<times> AttackCache" where
  "generateSpecialMoves board clr gameState moveGenCache =
     (let kingPos = (if clr = White then whiteKingPos gameState else blackKingPos gameState);
          king = sq board (row kingPos) (col kingPos);
          (castles, cache2) =
            (case king of
               None \<Rightarrow> ([], moveGenCache)
             | Some k \<Rightarrow>
                 if type k \<noteq> King then ([], moveGenCache)
                 else
                   let (ks, cache1) = canCastle board k kingPos \<lparr>row = row kingPos, col = 6\<rparr>
                                         isAttackedDuringSim moveGenCache;
                       (qs, cache2) = canCastle board k kingPos \<lparr>row = row kingPos, col = 2\<rparr>
                                         isAttackedDuringSim cache1
                   in ((case ks of Some m \<Rightarrow> [m] | None \<Rightarrow> [])
                       @ (case qs of Some m \<Rightarrow> [m] | None \<Rightarrow> []), cache2))
      in (case getLastMove gameState of
            None \<Rightarrow> (castles, board, cache2)
          | Some lastMv \<Rightarrow>
              if \<not> (type (piece lastMv) = Pawn \<and> \<bar>row (to lastMv) - row (from lastMv)\<bar> = 2)
              then (castles, board, cache2)
              else
                let victimPos = to lastMv;
                    adjacent = [\<lparr>row = row victimPos, col = col victimPos - 1\<rparr>,
                                \<lparr>row = row victimPos, col = col victimPos + 1\<rparr>]
                in foldl (\<lambda>(moves, b, cache) f.
                     (case sq b (row f) (col f) of
                        None \<Rightarrow> (moves, b, cache)
                      | Some attacker \<Rightarrow>
                          if type attacker \<noteq> Pawn \<or> color attacker \<noteq> clr then (moves, b, cache)
                          else
                            let dir = (if clr = White then 1 else -1);
                                t = \<lparr>row = row f + dir, col = col victimPos\<rparr>;
                                move = \<lparr>from = f, to = t, piece = attacker,
                                        captured = Some (piece lastMv), isEnPassant = True,
                                        isCastling = None, promotion = None\<rparr>
                            in if \<not> isEnPassantMove attacker b f t (Some lastMv) then (moves, b, cache)
                               else (case wouldLeaveKingInCheck b move kingPos isAttackedDuringSim cache of
                                       (True, b1, cache1) \<Rightarrow> (moves, b1, cache1)
                                     | (False, b1, cache1) \<Rightarrow> (moves @ [move], b1, cache1))))
                     (castles, board, cache2) adjacent))"

definition scanOrder :: "(int \<times> int) list" where
  "scanOrder = concat (map (\<lambda>r. map (\<lambda>c. (r, c)) [0..7]) [0..7])"

text \<open>
  One generation pass: a fresh pass-scoped cache, the moves of every piece of the colour in
  scan order, then the special moves. \<open>generateAllLegalMovesOn\<close> also returns the board as
  the pass leaves it.
\<close>

definition generateAllLegalMovesOn ::
  "BoardState \<Rightarrow> PieceColor \<Rightarrow> GameState \<Rightarrow> Move list \<times> BoardState" where
  "generateAllLegalMovesOn board clr gameState =
     (let (legalMoves, board1, cache1) =
            foldl (\<lambda>(moves, b, cache) (r, c).
                     (case sq b r c of
                        None \<Rightarrow> (moves, b, cache)
                      | Some p \<Rightarrow>
                          if color p \<noteq> clr then (moves, b, cache)
                          else (case generateMovesForPiece b p \<lparr>row = r, col = c\<rparr> gameState cache of
                                  (ms, b1, cache1) \<Rightarrow> (moves @ ms, b1, cache1))))
              ([], board, Map.empty) scanOrder;
          (special, board2, cache2) = generateSpecialMoves board1 clr gameState cache1
      in (legalMoves @ special, board2))"

definition generateAllLegalMoves :: "BoardState \<Rightarrow> PieceColor \<Rightarrow> GameState \<Rightarrow> Move list" where
  "generateAllLegalMoves board clr gameState = fst (generateAllLegalMovesOn board clr gameState)"

section \<open>services/FenGenerator.ts\<close>

text \<open>
  The piece letter: the first letter of the type's name in upper case, \<open>N\<close> for the knight;
  lower case for a black piece.
\<close>

definition upperLetter :: "PieceType \<Rightarrow> char" where
  "upperLetter t =
     (case t of Pawn \<Rightarrow> CHR ''P'' | Knight \<Rightarrow> CHR ''N'' | Bishop \<Rightarrow> CHR ''B''
              | Rook \<Rightarrow> CHR ''R'' | Queen \<Rightarrow> CHR ''Q'' | King \<Rightarrow> CHR ''K'')"

definition lowerLetter :: "PieceType \<Rightarrow> char" where
  "lowerLetter t =
     (case t of Pawn \<Rightarrow> CHR ''p'' | Knight \<Rightarrow> CHR ''n'' | Bishop \<Rightarrow> CHR ''b''
              | Rook \<Rightarrow> CHR ''r'' | Queen \<Rightarrow> CHR ''q'' | King \<Rightarrow> CHR ''k'')"

definition pieceChar :: "Piece \<Rightarrow> char" where
  "pieceChar p = (if color p = White then upperLetter (type p) else lowerLetter (type p))"

text \<open>One row of the placement field: the squares still to read and the run of empty squares so far.\<close>

fun rowFen :: "Square list \<Rightarrow> nat \<Rightarrow> string" where
  "rowFen [] emptySquares = (if emptySquares > 0 then natStr emptySquares else [])"
| "rowFen (Some p # rest) emptySquares =
     (if emptySquares > 0 then natStr emptySquares else []) @ pieceChar p # rowFen rest 0"
| "rowFen (None # rest) emptySquares = rowFen rest (emptySquares + 1)"

definition rowSquares :: "BoardState \<Rightarrow> int \<Rightarrow> Square list" where
  "rowSquares board r = map (\<lambda>c. sq board r c) [0..7]"

definition getPiecePlacementFen :: "BoardState \<Rightarrow> string" where
  "getPiecePlacementFen board =
     concat (map (\<lambda>r. rowFen (rowSquares board r) 0 @ (if r > 0 then ''/'' else []))
               [7, 6, 5, 4, 3, 2, 1, 0])"

definition unmovedOfType :: "Square \<Rightarrow> PieceType \<Rightarrow> bool" where
  "unmovedOfType s t = (case s of Some p \<Rightarrow> type p = t \<and> \<not> hasMoved p | None \<Rightarrow> False)"

definition getCastlingFen :: "BoardState \<Rightarrow> string" where
  "getCastlingFen board =
     (let whiteKing = sq board 0 4; blackKing = sq board 7 4;
          fen = (if unmovedOfType whiteKing King \<and> unmovedOfType (sq board 0 7) Rook then ''K'' else [])
              @ (if unmovedOfType whiteKing King \<and> unmovedOfType (sq board 0 0) Rook then ''Q'' else [])
              @ (if unmovedOfType blackKing King \<and> unmovedOfType (sq board 7 7) Rook then ''k'' else [])
              @ (if unmovedOfType blackKing King \<and> unmovedOfType (sq board 7 0) Rook then ''q'' else [])
      in if fen = [] then ''-'' else fen)"

definition getEnPassantFen :: "GameState \<Rightarrow> string" where
  "getEnPassantFen gs =
     (case getLastMove gs of
        None \<Rightarrow> ''-''
      | Some lm \<Rightarrow>
          if type (piece lm) \<noteq> Pawn \<or> \<bar>row (to lm) - row (from lm)\<bar> \<noteq> 2 then ''-''
          else char_of (97 + col (from lm)) # numStr (if color (piece lm) = White then 3 else 6))"

definition getPositionKey :: "BoardState \<Rightarrow> GameState \<Rightarrow> string" where
  "getPositionKey board gs =
     getPiecePlacementFen board @ '' '' @ [hd (colorStr (currentTurn gs))] @ '' ''
       @ getCastlingFen board @ '' '' @ getEnPassantFen gs"

section \<open>model/GameState.ts: operations\<close>

definition initialGameState :: GameState where
  "initialGameState =
     \<lparr>currentTurn = White, moveHistory = [], lastMove = None,
      whiteKingPos = \<lparr>row = 0, col = 4\<rparr>, blackKingPos = \<lparr>row = 7, col = 4\<rparr>,
      isCheck = False, isCheckmate = False, isStalemate = False, isDraw = False,
      allLegalMovesForCurrentTurn = [], gameSnapshots = [], currentSnapshotIndex = -1,
      halfMoveClock = 0, positionHistory = Map.empty\<rparr>"

definition updateStateAfterMove :: "Move \<Rightarrow> BoardState \<Rightarrow> GameState \<Rightarrow> GameState" where
  "updateStateAfterMove move board gs =
     (let gs1 = (if type (piece move) = Pawn \<or> captured move \<noteq> None
                 then gs\<lparr>halfMoveClock := 0\<rparr>
                 else gs\<lparr>halfMoveClock := halfMoveClock gs + 1\<rparr>);
          positionKey = getPositionKey board gs1;
          count = (case positionHistory gs1 positionKey of Some n \<Rightarrow> n | None \<Rightarrow> 0)
      in gs1\<lparr>positionHistory := (positionHistory gs1)(positionKey \<mapsto> count + 1)\<rparr>)"

definition addMove :: "Move \<Rightarrow> GameState \<Rightarrow> GameState" where
  "addMove move gs =
     (let gs1 = gs\<lparr>moveHistory := moveHistory gs @ [move], lastMove := Some move,
                    currentTurn := (if currentTurn gs = White then Black else White)\<rparr>
      in if type (piece move) = King
         then (if color (piece move) = White then gs1\<lparr>whiteKingPos := to move\<rparr>
               else gs1\<lparr>blackKingPos := to move\<rparr>)
         else gs1)"

definition saveSnapshot :: "BoardState \<Rightarrow> GameState \<Rightarrow> GameState" where
  "saveSnapshot board gs =
     (let snaps = (if currentSnapshotIndex gs < int (length (gameSnapshots gs)) - 1
                   then take (nat (currentSnapshotIndex gs + 1)) (gameSnapshots gs)
                   else gameSnapshots gs);
          snapshot = \<lparr>snapBoard = cloneBoard board,
                      snapCurrentTurn = currentTurn gs,
                      snapMoveHistory = moveHistory gs,
                      snapLastMove = lastMove gs,
                      snapIsCheck = isCheck gs,
                      snapIsCheckmate = isCheckmate gs,
                      snapIsStalemate = isStalemate gs,
                      snapIsDraw = isDraw gs,
                      snapWhiteKingPos = whiteKingPos gs,
                      snapBlackKingPos = blackKingPos gs,
                      snapHalfMoveClock = halfMoveClock gs,
                      snapPositionHistory = positionHistory gs\<rparr>
      in gs\<lparr>gameSnapshots := snaps @ [snapshot],
             currentSnapshotIndex := currentSnapshotIndex gs + 1\<rparr>)"

definition restoreFromSnapshot :: "GameSnapshot \<Rightarrow> GameState \<Rightarrow> GameState" where
  "restoreFromSnapshot snapshot gs =
     gs\<lparr>currentTurn := snapCurrentTurn snapshot,
        moveHistory := snapMoveHistory snapshot,
        lastMove := snapLastMove snapshot,
        isCheck := snapIsCheck snapshot,
        isCheckmate := snapIsCheckmate snapshot,
        isStalemate := snapIsStalemate snapshot,
        isDraw := snapIsDraw snapshot,
        whiteKingPos := snapWhiteKingPos snapshot,
        blackKingPos := snapBlackKingPos snapshot,
        halfMoveClock := snapHalfMoveClock snapshot,
        positionHistory := snapPositionHistory snapshot\<rparr>"

text \<open>\<^verbatim>\<open>undo\<close> and \<^verbatim>\<open>redo\<close> return the snapshot, or \<^verbatim>\<open>null\<close>, and the state as they leave it.\<close>

definition undo :: "GameState \<Rightarrow> GameSnapshot option \<times> GameState" where
  "undo gs =
     (if currentSnapshotIndex gs \<le> 0 then (None, gs)
      else
        let gs1 = gs\<lparr>currentSnapshotIndex := currentSnapshotIndex gs - 1\<rparr>;
            snapshot = gameSnapshots gs1 ! nat (currentSnapshotIndex gs1)
        in (Some snapshot, restoreFromSnapshot snapshot gs1))"

definition redo :: "GameState \<Rightarrow> GameSnapshot option \<times> GameState" where
  "redo gs =
     (if currentSnapshotIndex gs \<ge> int (length (gameSnapshots gs)) - 1 then (None, gs)
      else
        let gs1 = gs\<lparr>currentSnapshotIndex := currentSnapshotIndex gs + 1\<rparr>;
            snapshot = gameSnapshots gs1 ! nat (currentSnapshotIndex gs1)
        in (Some snapshot, restoreFromSnapshot snapshot gs1))"

definition canUndo :: "GameState \<Rightarrow> bool" where
  "canUndo gs = (currentSnapshotIndex gs > 0)"

definition canRedo :: "GameState \<Rightarrow> bool" where
  "canRedo gs = (currentSnapshotIndex gs < int (length (gameSnapshots gs)) - 1)"

section \<open>The persistent attack cache (Game.isSquareAttacked)\<close>

definition cacheKey :: "BoardState \<Rightarrow> GameState \<Rightarrow> BoardCoord \<Rightarrow> PieceColor \<Rightarrow> string" where
  "cacheKey board gs position attackingColor =
     getPositionKey board gs @ '':'' @ numStr (row position) @ '','' @ numStr (col position)
       @ '':'' @ colorStr attackingColor"

definition isSquareAttacked ::
  "BoardState \<Rightarrow> BoardCoord \<Rightarrow> PieceColor \<Rightarrow> GameState \<Rightarrow> AttackCache \<Rightarrow> bool \<times> AttackCache" where
  "isSquareAttacked board position attackingColor gs attackCache =
     (case attackCache (cacheKey board gs position attackingColor) of
        Some hit \<Rightarrow> (hit, attackCache)
      | None \<Rightarrow>
          (let result = calculateIsSquareAttacked board position attackingColor
           in (result, attackCache(cacheKey board gs position attackingColor \<mapsto> result))))"

section \<open>model/GameEndDetection.ts\<close>

definition getPiecesByColor :: "BoardState \<Rightarrow> PieceColor \<Rightarrow> (Piece \<times> BoardCoord) list" where
  "getPiecesByColor board clr =
     concat (map (\<lambda>(r, c). case sq board r c of
                               Some p \<Rightarrow> (if color p = clr then [(p, \<lparr>row = r, col = c\<rparr>)] else [])
                             | None \<Rightarrow> [])
               scanOrder)"

definition isInsufficientMaterial :: "BoardState \<Rightarrow> bool" where
  "isInsufficientMaterial board =
     (let pieces = getPiecesByColor board White @ getPiecesByColor board Black;
          nonKingPieces = filter (\<lambda>(p, pos). type p \<noteq> King) pieces
      in if length nonKingPieces = 0 then True
         else if length nonKingPieces = 1
         then (let p = fst (nonKingPieces ! 0) in type p = Bishop \<or> type p = Knight)
         else if length nonKingPieces = 2 \<and> list_all (\<lambda>(p, pos). type p = Bishop) nonKingPieces
         then (let pos1 = snd (nonKingPieces ! 0); pos2 = snd (nonKingPieces ! 1)
               in (row pos1 + col pos1) mod 2 = (row pos2 + col pos2) mod 2)
         else False)"

definition isDrawByRule :: "BoardState \<Rightarrow> GameState \<Rightarrow> bool" where
  "isDrawByRule board gs =
     (if halfMoveClock gs \<ge> 100 then True
      else if (case positionHistory gs (getPositionKey board gs) of Some n \<Rightarrow> n | None \<Rightarrow> 0) \<ge> 3
      then True
      else if isInsufficientMaterial board then True
      else False)"

definition isInCheck ::
  "BoardState \<Rightarrow> PieceColor \<Rightarrow> GameState \<Rightarrow> AttackCache \<Rightarrow> bool \<times> AttackCache" where
  "isInCheck board clr gs attackCache =
     (let kingPos = (if clr = White then whiteKingPos gs else blackKingPos gs);
          opponentColor = (if clr = White then Black else White)
      in isSquareAttacked board kingPos opponentColor gs attackCache)"

section \<open>components/ChessGameController.ts\<close>

text \<open>
  The controller's fields that the rules depend on: the engine's persistent attack cache,
  the game state, the current board, the selection and a pending promotion. The event bus
  and the list of notation strings only report what these hold.
\<close>

record Controller =
  attackCacheOf :: AttackCache
  gameState :: GameState
  currentBoard :: BoardState
  selectedSquare :: "BoardCoord option"
  promotionMove :: "Move option"

definition updateLegalMoves :: "Controller \<Rightarrow> Controller" where
  "updateLegalMoves ctl =
     (let boardForValidation = cloneBoard (currentBoard ctl)
      in ctl\<lparr>gameState := (gameState ctl)\<lparr>allLegalMovesForCurrentTurn :=
            generateAllLegalMoves boardForValidation (currentTurn (gameState ctl)) (gameState ctl)\<rparr>\<rparr>)"

definition checkGameEnd :: "Controller \<Rightarrow> Controller" where
  "checkGameEnd ctl =
     (let clr = currentTurn (gameState ctl);
          gs = gameState ctl;
          board = currentBoard ctl;
          hasLegal = (length (allLegalMovesForCurrentTurn gs) > 0);
          (chk, cache1) = isInCheck board clr gs (attackCacheOf ctl);
          gs1 = gs\<lparr>isCheck := chk\<rparr>;
          gs2 = gs1\<lparr>isCheckmate := (isCheck gs1 \<and> \<not> hasLegal)\<rparr>;
          gs3 = gs2\<lparr>isStalemate := (\<not> isCheck gs2 \<and> \<not> hasLegal)\<rparr>;
          ruleDraw = isDrawByRule board gs3;
          gs4 = gs3\<lparr>isDraw := (isStalemate gs3 \<or> ruleDraw)\<rparr>
      in ctl\<lparr>gameState := gs4, attackCacheOf := cache1\<rparr>)"

definition finaliseMove :: "Move \<Rightarrow> Controller \<Rightarrow> Controller" where
  "finaliseMove move ctl =
     (let ctl1 = ctl\<lparr>gameState := addMove move (gameState ctl)\<rparr>;
          ctl2 = ctl1\<lparr>gameState := updateStateAfterMove move (currentBoard ctl1) (gameState ctl1)\<rparr>;
          ctl3 = updateLegalMoves ctl2
      in checkGameEnd ctl3)"

definition executeMoveCtl :: "Move \<Rightarrow> Controller \<Rightarrow> Controller" where
  "executeMoveCtl move ctl =
     (let ctl1 = ctl\<lparr>gameState := saveSnapshot (currentBoard ctl) (gameState ctl)\<rparr>;
          ctl2 = ctl1\<lparr>currentBoard := executeMove (currentBoard ctl1) move\<rparr>;
          ctl3 = (if type (piece move) = King
                  then (if color (piece move) = White
                        then ctl2\<lparr>gameState := (gameState ctl2)\<lparr>whiteKingPos := to move\<rparr>\<rparr>
                        else ctl2\<lparr>gameState := (gameState ctl2)\<lparr>blackKingPos := to move\<rparr>\<rparr>)
                  else ctl2)
      in if needsPromotion (piece move) (to move)
         then ctl3\<lparr>promotionMove := Some move\<rparr>
         else finaliseMove move ctl3)"

definition onPromotionPieceSelected :: "PieceType \<Rightarrow> Controller \<Rightarrow> Controller" where
  "onPromotionPieceSelected pieceType ctl =
     (case promotionMove ctl of
        None \<Rightarrow> ctl
      | Some pm \<Rightarrow>
          let finalMove = pm\<lparr>promotion := Some pieceType\<rparr>;
              ctl1 = ctl\<lparr>currentBoard := executePromotion (currentBoard ctl) (to finalMove) pieceType\<rparr>;
              ctl2 = ctl1\<lparr>promotionMove := None\<rparr>
          in finaliseMove finalMove ctl2)"

definition findMove :: "Controller \<Rightarrow> BoardCoord \<Rightarrow> BoardCoord \<Rightarrow> Move option" where
  "findMove ctl f t =
     find (\<lambda>m. row (from m) = row f \<and> col (from m) = col f \<and> row (to m) = row t \<and> col (to m) = col t)
       (allLegalMovesForCurrentTurn (gameState ctl))"

definition handleSquareClick :: "int \<Rightarrow> int \<Rightarrow> Controller \<Rightarrow> Controller" where
  "handleSquareClick r c ctl =
     (let clickedCoord = \<lparr>row = r, col = c\<rparr>
      in (case selectedSquare ctl of
            Some sel \<Rightarrow>
              if row sel = row clickedCoord \<and> col sel = col clickedCoord
              then ctl\<lparr>selectedSquare := None\<rparr>
              else (case findMove ctl sel clickedCoord of
                      Some move \<Rightarrow> executeMoveCtl move (ctl\<lparr>selectedSquare := None\<rparr>)
                    | None \<Rightarrow>
                        (case sq (currentBoard ctl) r c of
                           Some p \<Rightarrow>
                             if color p = currentTurn (gameState ctl)
                             then ctl\<lparr>selectedSquare := Some clickedCoord\<rparr>
                             else ctl\<lparr>selectedSquare := None\<rparr>
                         | None \<Rightarrow> ctl\<lparr>selectedSquare := None\<rparr>))
          | None \<Rightarrow>
              (case sq (currentBoard ctl) r c of
                 Some p \<Rightarrow>
                   if color p = currentTurn (gameState ctl)
                      \<and> list_ex (\<lambda>m. row (from m) = r \<and> col (from m) = c)
                            (allLegalMovesForCurrentTurn (gameState ctl))
                   then ctl\<lparr>selectedSquare := Some clickedCoord\<rparr>
                   else ctl
               | None \<Rightarrow> ctl)))"

definition restoreSnapshot :: "GameSnapshot \<Rightarrow> Controller \<Rightarrow> Controller" where
  "restoreSnapshot snap ctl = updateLegalMoves (ctl\<lparr>currentBoard := cloneBoard (snapBoard snap)\<rparr>)"

definition undoCtl :: "Controller \<Rightarrow> Controller" where
  "undoCtl ctl =
     (case undo (gameState ctl) of
        (Some snap, gs1) \<Rightarrow> restoreSnapshot snap (ctl\<lparr>gameState := gs1\<rparr>)
      | (None, gs1) \<Rightarrow> ctl\<lparr>gameState := gs1\<rparr>)"

definition redoCtl :: "Controller \<Rightarrow> Controller" where
  "redoCtl ctl =
     (case redo (gameState ctl) of
        (Some snap, gs1) \<Rightarrow> restoreSnapshot snap (ctl\<lparr>gameState := gs1\<rparr>)
      | (None, gs1) \<Rightarrow> ctl\<lparr>gameState := gs1\<rparr>)"

text \<open>The constructor and \<^verbatim>\<open>initGame\<close>.\<close>

definition initGame :: Controller where
  "initGame =
     (let board = createInitialBoard;
          gs = initialGameState;
          startKey = getPositionKey board gs;
          gs1 = gs\<lparr>positionHistory := (positionHistory gs)(startKey \<mapsto> 1)\<rparr>;
          gs2 = saveSnapshot board gs1
      in updateLegalMoves
           \<lparr>attackCacheOf = Map.empty, gameState = gs2, currentBoard = board,
            selectedSquare = None, promotionMove = None\<rparr>)"

text \<open>A move entered by clicking its origin square and then its destination square.\<close>

definition playMove :: "(int \<times> int) \<times> (int \<times> int) \<Rightarrow> Controller \<Rightarrow> Controller" where
  "playMove m ctl =
     (case m of ((fr, fc), (tr, tc)) \<Rightarrow> handleSquareClick tr tc (handleSquareClick fr fc ctl))"

definition playMoves :: "((int \<times> int) \<times> (int \<times> int)) list \<Rightarrow> Controller \<Rightarrow> Controller" where
  "playMoves ms ctl = foldl (\<lambda>s m. playMove m s) ctl ms"

section \<open>Concrete positions and moves\<close>

text \<open>The initial position with f1 and g1 cleared, and White's kingside castling move.\<close>

definition castlingReadyBoard :: BoardState where
  "castlingReadyBoard = setSq (setSq createInitialBoard 0 5 None) 0 6 None"

definition kingsideCastle :: Move where
  "kingsideCastle =
     \<lparr>from = \<lparr>row = 0, col = 4\<rparr>, to = \<lparr>row = 0, col = 6\<rparr>,
      piece = \<lparr>type = King, color = White, hasMoved = False\<rparr>, captured = None,
      isEnPassant = False, isCastling = Some Kingside, promotion = None\<rparr>"

text \<open>
  A white pawn on e5 beside a black pawn that has just advanced d7-d5, and the en passant
  capture e5xd6 as the generator builds it (\<open>captured\<close> is the snapshot the double advance
  recorded).
\<close>

definition enPassantBoard :: BoardState where
  "enPassantBoard =
     setSq (setSq (setSq (setSq createInitialBoard 1 4 None) 4 4
                            (Some \<lparr>type = Pawn, color = White, hasMoved = True\<rparr>))
                   6 3 None) 4 3 (Some \<lparr>type = Pawn, color = Black, hasMoved = True\<rparr>)"

definition enPassantCapture :: Move where
  "enPassantCapture =
     \<lparr>from = \<lparr>row = 4, col = 4\<rparr>, to = \<lparr>row = 5, col = 3\<rparr>,
      piece = \<lparr>type = Pawn, color = White, hasMoved = True\<rparr>,
      captured = Some \<lparr>type = Pawn, color = Black, hasMoved = False\<rparr>,
      isEnPassant = True, isCastling = None, promotion = None\<rparr>"

text \<open>The two kings on their home squares and a white pawn on a7, about to promote on a8.\<close>

definition emptyBoard :: BoardState where
  "emptyBoard = replicate 8 (replicate 8 None)"

definition promotionBoard :: BoardState where
  "promotionBoard =
     setSq (setSq (setSq emptyBoard 0 4 (Some \<lparr>type = King, color = White, hasMoved = False\<rparr>))
                   7 4 (Some \<lparr>type = King, color = Black, hasMoved = False\<rparr>))
       6 0 (Some \<lparr>type = Pawn, color = White, hasMoved = True\<rparr>)"

definition promotionPush :: Move where
  "promotionPush =
     \<lparr>from = \<lparr>row = 6, col = 0\<rparr>, to = \<lparr>row = 7, col = 0\<rparr>,
      piece = \<lparr>type = Pawn, color = White, hasMoved = True\<rparr>, captured = None,
      isEnPassant = False, isCastling = None, promotion = Some Queen\<rparr>"

text \<open>An attack test that answers \<open>False\<close> and records what stands on a8 of the board it is shown.\<close>

definition observeA8 :: "Square AttackTest" where
  "observeA8 b p c seen = (False, sq b 7 0)"

text \<open>The pawn advance e2-e4 as the generator builds it, and a rook "move" a1-a2 onto the own pawn
  whose record carries no captured piece.\<close>

definition kingPawnAdvance :: Move where
  "kingPawnAdvance =
     \<lparr>from = \<lparr>row = 1, col = 4\<rparr>, to = \<lparr>row = 3, col = 4\<rparr>,
      piece = \<lparr>type = Pawn, color = White, hasMoved = False\<rparr>, captured = None,
      isEnPassant = False, isCastling = None, promotion = None\<rparr>"

definition rookOntoPawn :: Move where
  "rookOntoPawn =
     \<lparr>from = \<lparr>row = 0, col = 0\<rparr>, to = \<lparr>row = 1, col = 0\<rparr>,
      piece = \<lparr>type = Rook, color = White, hasMoved = False\<rparr>, captured = None,
      isEnPassant = False, isCastling = None, promotion = None\<rparr>"

text \<open>Three snapshots of the initial position with the cursor moved back to the first by two undos.\<close>

definition twiceUndone :: GameState where
  "twiceUndone =
     snd (undo (snd (undo (saveSnapshot createInitialBoard
       (saveSnapshot createInitialBoard (saveSnapshot createInitialBoard initialGameState))))))"

definition twiceUndoneCtl :: Controller where
  "twiceUndoneCtl =
     \<lparr>attackCacheOf = Map.empty, gameState = twiceUndone, currentBoard = createInitialBoard,
      selectedSquare = None, promotionMove = None\<rparr>"

section \<open>Material balances, in the words of the specification\<close>

text \<open>The pieces of one colour other than its king, with their squares, in scan order.\<close>

definition nonKingMaterial :: "BoardState \<Rightarrow> PieceColor \<Rightarrow> (Piece \<times> BoardCoord) list" where
  "nonKingMaterial board clr = filter (\<lambda>(p, pos). type p \<noteq> King) (getPiecesByColor board clr)"

definition isMinor :: "Piece \<Rightarrow> bool" where
  "isMinor p = (type p = Bishop \<or> type p = Knight)"

definition shade :: "BoardCoord \<Rightarrow> int" where
  "shade pos = (row pos + col pos) mod 2"

text \<open>
  The three balances the specification lists: king against king; king and one minor piece
  against king; king and bishop against king and bishop with the bishops on squares of the
  same shade.
\<close>

definition listedBalance :: "BoardState \<Rightarrow> bool" where
  "listedBalance board =
     (case (nonKingMaterial board White, nonKingMaterial board Black) of
        ([], []) \<Rightarrow> True
      | ([(p, pos)], []) \<Rightarrow> isMinor p
      | ([], [(p, pos)]) \<Rightarrow> isMinor p
      | ([(p, pos)], [(q, pos')]) \<Rightarrow> type p = Bishop \<and> type q = Bishop \<and> shade pos = shade pos'
      | _ \<Rightarrow> False)"

text \<open>One side has exactly two bishops on squares of the same shade, the other only its king.\<close>

definition sameSideBishopPair :: "BoardState \<Rightarrow> bool" where
  "sameSideBishopPair board =
     (case (nonKingMaterial board White, nonKingMaterial board Black) of
        ([(p, pos), (q, pos')], []) \<Rightarrow> type p = Bishop \<and> type q = Bishop \<and> shade pos = shade pos'
      | ([], [(p, pos), (q, pos')]) \<Rightarrow> type p = Bishop \<and> type q = Bishop \<and> shade pos = shade pos'
      | _ \<Rightarrow> False)"

text \<open>Kings on e1 and e8; White also has bishops on c1 and a3, both dark squares.\<close>

definition twoBishopsBoard :: BoardState where
  "twoBishopsBoard =
     setSq (setSq (setSq (setSq emptyBoard 0 4 (Some \<lparr>type = King, color = White, hasMoved = True\<rparr>))
                           7 4 (Some \<lparr>type = King, color = Black, hasMoved = True\<rparr>))
                   0 2 (Some \<lparr>type = Bishop, color = White, hasMoved = False\<rparr>))
       2 0 (Some \<lparr>type = Bishop, color = White, hasMoved = True\<rparr>)"

text \<open>Kings on e1 and e8, a white bishop on c1 and a black knight on b8.\<close>

definition bishopVsKnightBoard :: BoardState where
  "bishopVsKnightBoard =
     setSq (setSq (setSq (setSq emptyBoard 0 4 (Some \<lparr>type = King, color = White, hasMoved = True\<rparr>))
                           7 4 (Some \<lparr>type = King, color = Black, hasMoved = True\<rparr>))
                   0 2 (Some \<lparr>type = Bishop, color = White, hasMoved = False\<rparr>))
       7 1 (Some \<lparr>type = Knight, color = Black, hasMoved = False\<rparr>)"

section \<open>Observing a game\<close>

text \<open>\<^verbatim>\<open>BoardUtils.findPiece\<close>: the first square in scan order that holds a piece of the type and colour.\<close>

definition findPiece :: "BoardState \<Rightarrow> PieceType \<Rightarrow> PieceColor \<Rightarrow> BoardCoord option" where
  "findPiece board pieceType clr =
     map_option (\<lambda>(r, c). \<lparr>row = r, col = c\<rparr>)
       (find (\<lambda>(r, c). case sq board r c of
                          Some p \<Rightarrow> type p = pieceType \<and> color p = clr
                        | None \<Rightarrow> False) scanOrder)"

definition positionOf :: "Controller \<Rightarrow> string" where
  "positionOf ctl = getPositionKey (currentBoard ctl) (gameState ctl)"

text \<open>The move from \<open>f\<close> to \<open>t\<close>, if any, in the list the generator returns for the side to move.\<close>

definition generatedMove :: "Controller \<Rightarrow> int \<times> int \<Rightarrow> int \<times> int \<Rightarrow> Move option" where
  "generatedMove ctl f t =
     find (\<lambda>m. row (from m) = fst f \<and> col (from m) = snd f \<and> row (to m) = fst t \<and> col (to m) = snd t)
       (generateAllLegalMoves (currentBoard ctl) (currentTurn (gameState ctl)) (gameState ctl))"

text \<open>After the move is committed on the board, is the mover's king, where it then stands, attacked?\<close>

definition ownKingAttackedAfter :: "BoardState \<Rightarrow> PieceColor \<Rightarrow> Move \<Rightarrow> bool" where
  "ownKingAttackedAfter board clr m =
     (let after = executeMove board m
      in case findPiece after King clr of
           Some kingSquare \<Rightarrow> calculateIsSquareAttacked after kingSquare (opponent clr)
         | None \<Rightarrow> False)"

definition soundnessView :: "Controller \<Rightarrow> int \<times> int \<Rightarrow> int \<times> int \<Rightarrow> string \<times> Move option \<times> bool option" where
  "soundnessView ctl f t =
     (let g = generatedMove ctl f t
      in (positionOf ctl, g,
          map_option (ownKingAttackedAfter (currentBoard ctl) (currentTurn (gameState ctl))) g))"

text \<open>The side to move, the move just made, and how many moves the generator returns.\<close>

definition moveCountView :: "Controller \<Rightarrow> PieceColor \<times> Move option \<times> nat" where
  "moveCountView ctl =
     (currentTurn (gameState ctl), lastMove (gameState ctl),
      length (generateAllLegalMoves (currentBoard ctl) (currentTurn (gameState ctl)) (gameState ctl)))"

text \<open>The recorded king squares beside the squares on which the kings stand.\<close>

definition kingView ::
  "Controller \<Rightarrow> string \<times> CastleSide option option \<times> (BoardCoord \<times> BoardCoord option) \<times> (BoardCoord \<times> BoardCoord option)" where
  "kingView ctl =
     (positionOf ctl, map_option isCastling (lastMove (gameState ctl)),
      (whiteKingPos (gameState ctl), findPiece (currentBoard ctl) King White),
      (blackKingPos (gameState ctl), findPiece (currentBoard ctl) King Black))"



text \<open>1. e4 e5 2. Qh5, then the pawn move f7-f6.\<close>

definition queenSortie :: "((int \<times> int) \<times> (int \<times> int)) list" where
  "queenSortie = [((1, 4), (3, 4)), ((6, 4), (4, 4)), ((0, 3), (4, 7))]"

definition pinnedPawnPush :: Move where
  "pinnedPawnPush =
     \<lparr>from = \<lparr>row = 6, col = 5\<rparr>, to = \<lparr>row = 5, col = 5\<rparr>,
      piece = \<lparr>type = Pawn, color = Black, hasMoved = False\<rparr>, captured = None,
      isEnPassant = False, isCastling = None, promotion = None\<rparr>"

text \<open>1. e4 e5 2. Nf3 Nc6 3. Bc4 Bc5 4. O-O.\<close>

definition italianCastle :: "((int \<times> int) \<times> (int \<times> int)) list" where
  "italianCastle =
     [((1, 4), (3, 4)), ((6, 4), (4, 4)), ((0, 6), (2, 5)), ((7, 1), (5, 2)),
      ((0, 5), (3, 2)), ((7, 5), (4, 2)), ((0, 4), (0, 6))]"


section \<open>Reading position keys back\<close>

text \<open>
  Decoders for the strings the engine builds, used to show that a key determines what it was
  built from: the value of a digit and of a decimal string, the piece a letter stands for,
  and the row of squares a placement row describes.
\<close>

definition isDigit :: "char \<Rightarrow> bool" where
  "isDigit ch = (ch \<in> set ''0123456789'')"

definition digitValue :: "char \<Rightarrow> nat" where
  "digitValue ch =
     (if ch = CHR ''1'' then 1 else if ch = CHR ''2'' then 2 else if ch = CHR ''3'' then 3
      else if ch = CHR ''4'' then 4 else if ch = CHR ''5'' then 5 else if ch = CHR ''6'' then 6
      else if ch = CHR ''7'' then 7 else if ch = CHR ''8'' then 8 else if ch = CHR ''9'' then 9
      else 0)"

definition strNat :: "string \<Rightarrow> nat" where
  "strNat s = foldl (\<lambda>acc ch. 10 * acc + digitValue ch) 0 s"

definition letterPiece :: "char \<Rightarrow> PieceType \<times> PieceColor" where
  "letterPiece ch =
     (if ch = CHR ''P'' then (Pawn, White) else if ch = CHR ''N'' then (Knight, White)
      else if ch = CHR ''B'' then (Bishop, White) else if ch = CHR ''R'' then (Rook, White)
      else if ch = CHR ''Q'' then (Queen, White) else if ch = CHR ''K'' then (King, White)
      else if ch = CHR ''p'' then (Pawn, Black) else if ch = CHR ''n'' then (Knight, Black)
      else if ch = CHR ''b'' then (Bishop, Black) else if ch = CHR ''r'' then (Rook, Black)
      else if ch = CHR ''q'' then (Queen, Black) else (King, Black))"

definition squareView :: "Square \<Rightarrow> (PieceType \<times> PieceColor) option" where
  "squareView s = map_option (\<lambda>p. (type p, color p)) s"

definition expandFen :: "string \<Rightarrow> (PieceType \<times> PieceColor) option list" where
  "expandFen s =
     concat (map (\<lambda>ch. if isDigit ch then replicate (digitValue ch) None
                         else [Some (letterPiece ch)]) s)"

text \<open>Rows joined by slashes, as the placement field is.\<close>

fun joinRows :: "string list \<Rightarrow> string" where
  "joinRows [] = []"
| "joinRows [x] = x"
| "joinRows (x # y # ys) = x @ CHR ''/'' # joinRows (y # ys)"

text \<open>Two boards show the same piece types and colours on every square of the grid.\<close>

definition sameView :: "BoardState \<Rightarrow> BoardState \<Rightarrow> bool" where
  "sameView a b =
     list_all (\<lambda>r. list_all (\<lambda>c. squareView (sq a r c) = squareView (sq b r c)) [0..7]) [0..7]"

text \<open>The persistent cache after a sequence of earlier queries, each with its own board and state.\<close>

definition runQueries ::
  "(BoardState \<times> BoardCoord \<times> PieceColor \<times> GameState) list \<Rightarrow> AttackCache \<Rightarrow> AttackCache" where
  "runQueries qs cache =
     foldl (\<lambda>ch (b, pos, c, gs). snd (isSquareAttacked b pos c gs ch)) cache qs"

section \<open>Board copies\<close>

lemma cloneBoard_id: "cloneBoard board = board"
  unfolding cloneBoard_def
  by (simp add: map_idI split: option.split)

lemma executeMove_special:
  "isCastling m \<noteq> None \<or> isEnPassant m \<Longrightarrow> executeMove board m = board"
  by (auto simp: executeMove_def makeMove_def cloneBoard_id Let_def split: option.split)

section \<open>Commit mode on special moves\<close>

text \<open>
  C1. The claim: for a move flagged castling or en passant, \<open>executeMove\<close> returns a board
  on which the special move has been carried out. On the code it does not: the handlers
  build the new board and \<open>makeMove\<close> drops it. For White's kingside castling with f1 and
  g1 empty the returned board equals the input: g1 and f1 are still empty, the king is on
  e1 and the rook on h1, both unmoved, although \<open>executeCastling\<close> itself puts a moved king
  on g1. For the en passant capture e5xd6 the returned board equals the input as well:
  d6 is empty and the black pawn still stands on d5.
\<close>

theorem executeMove_drops_special_moves:
  "executeMove castlingReadyBoard kingsideCastle = castlingReadyBoard
   \<and> sq (executeMove castlingReadyBoard kingsideCastle) 0 6 = None
   \<and> sq (executeMove castlingReadyBoard kingsideCastle) 0 5 = None
   \<and> sq (executeMove castlingReadyBoard kingsideCastle) 0 4
       = Some \<lparr>type = King, color = White, hasMoved = False\<rparr>
   \<and> sq (executeMove castlingReadyBoard kingsideCastle) 0 7
       = Some \<lparr>type = Rook, color = White, hasMoved = False\<rparr>
   \<and> sq (executeCastling castlingReadyBoard kingsideCastle) 0 6
       = Some \<lparr>type = King, color = White, hasMoved = True\<rparr>
   \<and> executeMove enPassantBoard enPassantCapture = enPassantBoard
   \<and> sq (executeMove enPassantBoard enPassantCapture) 5 3 = None
   \<and> sq (executeMove enPassantBoard enPassantCapture) 4 3
       = Some \<lparr>type = Pawn, color = Black, hasMoved = True\<rparr>
   \<and> sq (executeEnPassant enPassantBoard enPassantCapture) 4 3 = None"
  by code_simp

section \<open>The probe of a promoting pawn\<close>

text \<open>
  C5. The claim: when a candidate pawn move reaches the promotion rank, the move is tagged
  with the queen and the attack test of the king-safety probe runs on a board with a queen
  on the destination square. The tag is set, but the board the attack test is shown has
  the pawn there: \<open>makeMove\<close> drops the board \<open>executePromotion\<close> returns. With a white pawn
  on a7, the generator's candidate a7-a8 is \<open>promotionPush\<close>, and the attack test of its
  probe sees a white pawn on a8, while \<open>executePromotion\<close> on that board does give a queen.
\<close>

theorem probe_sees_pawn_not_queen:
  "fst (validateMoveLite \<lparr>type = Pawn, color = White, hasMoved = True\<rparr> promotionBoard
          \<lparr>row = 6, col = 0\<rparr> \<lparr>row = 7, col = 0\<rparr> initialGameState Map.empty)
     = Some promotionPush
   \<and> promotion promotionPush = Some Queen
   \<and> wouldLeaveKingInCheck promotionBoard promotionPush \<lparr>row = 0, col = 4\<rparr> observeA8 None
     = (False, promotionBoard, Some \<lparr>type = Pawn, color = White, hasMoved = True\<rparr>)
   \<and> sq (executePromotion (makeMove promotionBoard promotionPush) (to promotionPush) Queen) 7 0
     = Some \<lparr>type = Queen, color = White, hasMoved = True\<rparr>"
  by code_simp

section \<open>Squares of a well-formed board\<close>

lemma wellFormed_setSq [simp]: "wellFormed b \<Longrightarrow> wellFormed (setSq b r c v)"
  by (auto simp: wellFormed_def setSq_def list_all_length nth_list_update)

lemma sq_setSq:
  "wellFormed b \<Longrightarrow> 0 \<le> r \<Longrightarrow> r \<le> 7 \<Longrightarrow> 0 \<le> c \<Longrightarrow> c \<le> 7 \<Longrightarrow>
     sq (setSq b r c v) r' c' = (if r' = r \<and> c' = c then v else sq b r' c')"
  by (auto simp: wellFormed_def setSq_def sq_def list_all_length nth_list_update)

text \<open>Two well-formed boards with the same content on every square of the grid are equal.\<close>

lemma board_eqI:
  assumes "wellFormed a" "wellFormed b"
    and "\<And>r c. 0 \<le> r \<Longrightarrow> r \<le> 7 \<Longrightarrow> 0 \<le> c \<Longrightarrow> c \<le> 7 \<Longrightarrow> sq a r c = sq b r c"
  shows "a = b"
proof (rule nth_equalityI)
  show "length a = length b" using assms(1,2) by (simp add: wellFormed_def)
next
  fix i assume i: "i < length a"
  then have i8: "i < 8" using assms(1) by (simp add: wellFormed_def)
  have la: "length (a ! i) = 8" and lb: "length (b ! i) = 8"
    using assms(1,2) i8 by (auto simp: wellFormed_def list_all_length)
  show "a ! i = b ! i"
  proof (rule nth_equalityI)
    show "length (a ! i) = length (b ! i)" using la lb by simp
  next
    fix j assume "j < length (a ! i)"
    then have j8: "j < 8" using la by simp
    have "sq a (int i) (int j) = sq b (int i) (int j)"
      using assms(3)[of "int i" "int j"] i8 j8 by simp
    then show "a ! i ! j = b ! i ! j"
      using i8 j8 la lb assms(1,2) by (simp add: sq_def wellFormed_def)
  qed
qed

section \<open>Make and unmake\<close>

lemma unmake_make_plain:
  assumes wf: "wellFormed B"
    and f: "isValidCoord (from m)" and t: "isValidCoord (to m)"
    and ne: "from m \<noteq> to m"
    and plain: "isCastling m = None" "\<not> isEnPassant m"
    and pc: "sq B (row (from m)) (col (from m)) = Some (piece m)"
    and cap: "captured m = sq B (row (to m)) (col (to m))"
    and promo: "promotion m \<noteq> None \<longrightarrow> type (piece m) = Pawn"
  shows "unmakeMove (makeMove B m) m = B"
proof -
  let ?fr = "row (from m)" and ?fc = "col (from m)" and ?tr = "row (to m)" and ?tc = "col (to m)"
  have fb: "0 \<le> ?fr" "?fr \<le> 7" "0 \<le> ?fc" "?fc \<le> 7"
    and tb: "0 \<le> ?tr" "?tr \<le> 7" "0 \<le> ?tc" "?tc \<le> 7"
    using f t by (auto simp: isValidCoord_def)
  have ne': "\<not> (?tr = ?fr \<and> ?tc = ?fc)"
    using ne by (cases "from m"; cases "to m") auto
  define B1 where "B1 = setSq (setSq B ?tr ?tc (Some ((piece m)\<lparr>hasMoved := True\<rparr>))) ?fr ?fc None"
  have mk: "makeMove B m = B1"
    using plain pc by (simp add: makeMove_def makeNormalMove_def B1_def Let_def split: option.split)
  have wf1: "wellFormed B1" using wf by (simp add: B1_def)
  have at_to: "sq B1 ?tr ?tc = Some ((piece m)\<lparr>hasMoved := True\<rparr>)"
    using wf fb tb ne' by (simp add: B1_def sq_setSq)
  have unp: "unmakePromotion B1 (to m) = B1" if "promotion m \<noteq> None"
  proof -
    have "type (piece m) = Pawn" using promo that by simp
    then have "(piece m)\<lparr>hasMoved := True, type := Pawn\<rparr> = (piece m)\<lparr>hasMoved := True\<rparr>" by simp
    then show ?thesis
      unfolding unmakePromotion_def using at_to wf1 tb
      by (auto intro!: board_eqI simp: sq_setSq)
  qed
  have "unmakeMove B1 m = unmakeNormalMove B1 m"
    using plain unp by (auto simp: unmakeMove_def Let_def)
  also have "\<dots> = B"
  proof -
    have "setSq (setSq B1 ?fr ?fc (Some (piece m))) ?tr ?tc (captured m) = B"
    proof (rule board_eqI)
      show "wellFormed (setSq (setSq B1 ?fr ?fc (Some (piece m))) ?tr ?tc (captured m))"
        using wf1 by simp
      show "wellFormed B" by (rule wf)
      fix r c :: int
      show "sq (setSq (setSq B1 ?fr ?fc (Some (piece m))) ?tr ?tc (captured m)) r c = sq B r c"
        using wf wf1 fb tb ne' pc cap by (auto simp: sq_setSq B1_def)
    qed
    then show ?thesis
      unfolding unmakeNormalMove_def using at_to by simp
  qed
  finally show ?thesis using mk by simp
qed

text \<open>
  C3, as stated. The claim: for every board and every move, make followed by unmake
  restores the board. It fails for a move whose record does not describe the board: a
  rook "move" a1-a2 onto the own pawn, recorded without a captured piece, comes back with
  a2 empty.
\<close>

theorem unmake_make_not_inverse_for_every_move:
  "unmakeMove (makeMove createInitialBoard rookOntoPawn) rookOntoPawn \<noteq> createInitialBoard
   \<and> sq createInitialBoard 1 0 = Some \<lparr>type = Pawn, color = White, hasMoved = False\<rparr>
   \<and> sq (unmakeMove (makeMove createInitialBoard rookOntoPawn) rookOntoPawn) 1 0 = None"
  by code_simp

text \<open>
  C3, amended. For every 8 by 8 board and every plain move (flagged neither castling nor
  en passant) between two different squares of the grid whose \<open>piece\<close> field is a copy of
  the piece on the origin square, whose \<open>captured\<close> field is the content of the destination
  square, and whose promotion tag is set only for a pawn: make followed by unmake gives
  back the board, every \<open>hasMoved\<close> flag included, and \<open>wouldLeaveKingInCheck\<close> leaves the
  board as it found it whatever the attack test answers.
\<close>

theorem unmake_make_restores_board:
  assumes "wellFormed B"
    and "isValidCoord (from m)" and "isValidCoord (to m)"
    and "from m \<noteq> to m"
    and "isCastling m = None" and "\<not> isEnPassant m"
    and "sq B (row (from m)) (col (from m)) = Some (piece m)"
    and "captured m = sq B (row (to m)) (col (to m))"
    and "promotion m \<noteq> None \<longrightarrow> type (piece m) = Pawn"
  shows "unmakeMove (makeMove B m) m = B
    \<and> fst (snd (wouldLeaveKingInCheck B m kingPos attackTest cache)) = B"
  using unmake_make_plain[OF assms]
  by (simp add: wouldLeaveKingInCheck_def Let_def split: prod.split)

theorem unmake_make_restores_board_witness:
  "wellFormed createInitialBoard
   \<and> isValidCoord (from kingPawnAdvance) \<and> isValidCoord (to kingPawnAdvance)
   \<and> from kingPawnAdvance \<noteq> to kingPawnAdvance
   \<and> isCastling kingPawnAdvance = None \<and> \<not> isEnPassant kingPawnAdvance
   \<and> sq createInitialBoard (row (from kingPawnAdvance)) (col (from kingPawnAdvance))
       = Some (piece kingPawnAdvance)
   \<and> captured kingPawnAdvance
       = sq createInitialBoard (row (to kingPawnAdvance)) (col (to kingPawnAdvance))
   \<and> unmakeMove (makeMove createInitialBoard kingPawnAdvance) kingPawnAdvance = createInitialBoard
   \<and> fst (snd (wouldLeaveKingInCheck createInitialBoard kingPawnAdvance \<lparr>row = 0, col = 4\<rparr>
                  isAttackedDuringSim Map.empty)) = createInitialBoard"
proof -
  have h1: "wellFormed createInitialBoard" by code_simp
  have h2: "isValidCoord (from kingPawnAdvance)" and h3: "isValidCoord (to kingPawnAdvance)"
    by code_simp+
  have h4: "from kingPawnAdvance \<noteq> to kingPawnAdvance" by code_simp
  have h5: "isCastling kingPawnAdvance = None" and h6: "\<not> isEnPassant kingPawnAdvance"
    by code_simp+
  have h7: "sq createInitialBoard (row (from kingPawnAdvance)) (col (from kingPawnAdvance))
       = Some (piece kingPawnAdvance)" by code_simp
  have h8: "captured kingPawnAdvance
       = sq createInitialBoard (row (to kingPawnAdvance)) (col (to kingPawnAdvance))" by code_simp
  have h9: "promotion kingPawnAdvance \<noteq> None \<longrightarrow> type (piece kingPawnAdvance) = Pawn"
    by (simp add: kingPawnAdvance_def)
  show ?thesis
    using unmake_make_restores_board[OF h1 h2 h3 h4 h5 h6 h7 h8 h9,
        of "\<lparr>row = 0, col = 4\<rparr>" isAttackedDuringSim Map.empty]
      h1 h2 h3 h4 h5 h6 h7 h8
    by simp
qed

section \<open>Insufficient material\<close>

lemma insufficient_pooled:
  "isInsufficientMaterial board =
     (let nk = nonKingMaterial board White @ nonKingMaterial board Black
      in if length nk = 0 then True
         else if length nk = 1 then isMinor (fst (nk ! 0))
         else if length nk = 2 \<and> list_all (\<lambda>(p, pos). type p = Bishop) nk
         then shade (snd (nk ! 0)) = shade (snd (nk ! 1))
         else False)"
  by (simp add: isInsufficientMaterial_def nonKingMaterial_def isMinor_def shade_def Let_def)

lemma list_shape:
  "xs = [] \<or> (\<exists>a. xs = [a]) \<or> (\<exists>a b. xs = [a, b]) \<or> (\<exists>a b c ys. xs = a # b # c # ys)"
  by (cases xs rule: list.exhaust; simp; metis list.exhaust)

text \<open>
  C6, as stated. The claim: \<open>isInsufficientMaterial\<close> is true for the three listed balances
  and false for every other. With kings on e1 and e8 and two white bishops on the dark
  squares c1 and a3 it returns true, and that balance is none of the three.
\<close>

theorem two_bishops_of_one_side_insufficient:
  "isInsufficientMaterial twoBishopsBoard \<and> \<not> listedBalance twoBishopsBoard
   \<and> map (\<lambda>(p, pos). type p) (nonKingMaterial twoBishopsBoard White) = [Bishop, Bishop]
   \<and> nonKingMaterial twoBishopsBoard Black = []"
  by code_simp

text \<open>
  C6, amended. \<open>isInsufficientMaterial\<close> pools the pieces of both colours that are not
  kings and is true exactly when there is none, or one that is a bishop or a knight, or
  two that are both bishops on squares of the same shade, whichever side each bishop
  belongs to: that is, for the three listed balances and for two same-shade bishops of one
  side against a lone king. It is false for every other combination (two knights, or
  bishop and knight, against a lone king; bishop against knight).
\<close>

theorem insufficient_material_characterised:
  "isInsufficientMaterial board = (listedBalance board \<or> sameSideBishopPair board)"
proof -
  define w where "w = nonKingMaterial board White"
  define bl where "bl = nonKingMaterial board Black"
  have eq: "isInsufficientMaterial board =
     (let nk = w @ bl
      in if length nk = 0 then True
         else if length nk = 1 then isMinor (fst (nk ! 0))
         else if length nk = 2 \<and> list_all (\<lambda>(p, pos). type p = Bishop) nk
         then shade (snd (nk ! 0)) = shade (snd (nk ! 1))
         else False)"
    by (simp add: insufficient_pooled w_def bl_def)
  have l: "listedBalance board = (case (w, bl) of
        ([], []) \<Rightarrow> True
      | ([(p, pos)], []) \<Rightarrow> isMinor p
      | ([], [(p, pos)]) \<Rightarrow> isMinor p
      | ([(p, pos)], [(q, pos')]) \<Rightarrow> type p = Bishop \<and> type q = Bishop \<and> shade pos = shade pos'
      | _ \<Rightarrow> False)"
    by (simp add: listedBalance_def w_def bl_def)
  have s: "sameSideBishopPair board = (case (w, bl) of
        ([(p, pos), (q, pos')], []) \<Rightarrow> type p = Bishop \<and> type q = Bishop \<and> shade pos = shade pos'
      | ([], [(p, pos), (q, pos')]) \<Rightarrow> type p = Bishop \<and> type q = Bishop \<and> shade pos = shade pos'
      | _ \<Rightarrow> False)"
    by (simp add: sameSideBishopPair_def w_def bl_def)
  show ?thesis
    unfolding eq l s
    using list_shape[of w] list_shape[of bl]
    by (elim disjE exE) (auto simp: Let_def)
qed

theorem insufficient_material_characterised_witness:
  "\<not> isInsufficientMaterial bishopVsKnightBoard
   \<and> \<not> listedBalance bishopVsKnightBoard \<and> \<not> sameSideBishopPair bishopVsKnightBoard
   \<and> isInsufficientMaterial promotionBoard = False
   \<and> isInsufficientMaterial (setSq promotionBoard 6 0 None)"
proof -
  have "\<not> listedBalance bishopVsKnightBoard" and "\<not> sameSideBishopPair bishopVsKnightBoard"
    and "\<not> listedBalance promotionBoard" and "\<not> sameSideBishopPair promotionBoard"
    and "listedBalance (setSq promotionBoard 6 0 None)"
    by code_simp+
  then show ?thesis
    using insufficient_material_characterised[of bishopVsKnightBoard]
      insufficient_material_characterised[of promotionBoard]
      insufficient_material_characterised[of "setSq promotionBoard 6 0 None"]
    by simp
qed

section \<open>Undo, redo and the snapshot stack\<close>

lemma updateLegalMoves_snapshots:
  "gameSnapshots (gameState (updateLegalMoves ctl)) = gameSnapshots (gameState ctl)"
  "currentSnapshotIndex (gameState (updateLegalMoves ctl)) = currentSnapshotIndex (gameState ctl)"
  by (simp_all add: updateLegalMoves_def Let_def)

lemma checkGameEnd_snapshots:
  "gameSnapshots (gameState (checkGameEnd ctl)) = gameSnapshots (gameState ctl)"
  "currentSnapshotIndex (gameState (checkGameEnd ctl)) = currentSnapshotIndex (gameState ctl)"
  by (simp_all add: checkGameEnd_def case_prod_beta Let_def)

lemma addMove_snapshots:
  "gameSnapshots (addMove m gs) = gameSnapshots gs"
  "currentSnapshotIndex (addMove m gs) = currentSnapshotIndex gs"
  by (simp_all add: addMove_def Let_def)

lemma updateStateAfterMove_snapshots:
  "gameSnapshots (updateStateAfterMove m b gs) = gameSnapshots gs"
  "currentSnapshotIndex (updateStateAfterMove m b gs) = currentSnapshotIndex gs"
  by (simp_all add: updateStateAfterMove_def Let_def)

lemma finaliseMove_snapshots:
  "gameSnapshots (gameState (finaliseMove m ctl)) = gameSnapshots (gameState ctl)"
  "currentSnapshotIndex (gameState (finaliseMove m ctl)) = currentSnapshotIndex (gameState ctl)"
  by (simp_all add: finaliseMove_def checkGameEnd_snapshots updateLegalMoves_snapshots
        addMove_snapshots updateStateAfterMove_snapshots Let_def)

lemma executeMoveCtl_snapshots:
  "gameSnapshots (gameState (executeMoveCtl m ctl))
     = gameSnapshots (saveSnapshot (currentBoard ctl) (gameState ctl))"
  "currentSnapshotIndex (gameState (executeMoveCtl m ctl))
     = currentSnapshotIndex (saveSnapshot (currentBoard ctl) (gameState ctl))"
  by (simp_all add: executeMoveCtl_def finaliseMove_snapshots Let_def)

text \<open>
  C10. Whenever the cursor is within the stack (as it is after any number of undos),
  committing a move keeps the snapshots up to and including the cursor, discards every
  snapshot beyond it and appends the new one, so the new snapshot is the last: \<open>canRedo\<close>
  is false and \<open>redo\<close> returns \<^verbatim>\<open>null\<close>, right after \<open>saveSnapshot\<close> and after the whole
  commit. \<open>undo\<close> with the cursor on the first snapshot and \<open>redo\<close> with the cursor on the last
  return \<^verbatim>\<open>null\<close> and leave the game state as it was.
\<close>

theorem commit_after_undo_discards_redo_tail:
  assumes "- 1 \<le> currentSnapshotIndex (gameState ctl)"
    and "currentSnapshotIndex (gameState ctl) < int (length (gameSnapshots (gameState ctl)))"
  shows "(\<exists>snapshot. gameSnapshots (saveSnapshot (currentBoard ctl) (gameState ctl))
            = take (nat (currentSnapshotIndex (gameState ctl) + 1)) (gameSnapshots (gameState ctl))
              @ [snapshot])
    \<and> gameSnapshots (gameState (executeMoveCtl m ctl))
        = gameSnapshots (saveSnapshot (currentBoard ctl) (gameState ctl))
    \<and> \<not> canRedo (saveSnapshot (currentBoard ctl) (gameState ctl))
    \<and> \<not> canRedo (gameState (executeMoveCtl m ctl))
    \<and> redo (gameState (executeMoveCtl m ctl)) = (None, gameState (executeMoveCtl m ctl))
    \<and> (currentSnapshotIndex (gameState ctl) \<le> 0 \<longrightarrow> undo (gameState ctl) = (None, gameState ctl))
    \<and> (currentSnapshotIndex (gameState ctl) \<ge> int (length (gameSnapshots (gameState ctl))) - 1
          \<longrightarrow> redo (gameState ctl) = (None, gameState ctl))"
proof -
  let ?gs = "gameState ctl" and ?b = "currentBoard ctl"
  have len: "length (gameSnapshots (saveSnapshot ?b ?gs)) = nat (currentSnapshotIndex ?gs + 2)"
    using assms by (auto simp: saveSnapshot_def Let_def)
  have idx: "currentSnapshotIndex (saveSnapshot ?b ?gs) = currentSnapshotIndex ?gs + 1"
    by (simp add: saveSnapshot_def Let_def)
  have nr: "\<not> canRedo (saveSnapshot ?b ?gs)"
    using len idx assms(1) by (simp add: canRedo_def)
  have shape: "\<exists>snapshot. gameSnapshots (saveSnapshot ?b ?gs)
            = take (nat (currentSnapshotIndex ?gs + 1)) (gameSnapshots ?gs) @ [snapshot]"
    using assms by (auto simp: saveSnapshot_def Let_def)
  have nr': "\<not> canRedo (gameState (executeMoveCtl m ctl))"
    using nr by (simp add: canRedo_def executeMoveCtl_snapshots)
  then have r: "redo (gameState (executeMoveCtl m ctl)) = (None, gameState (executeMoveCtl m ctl))"
    by (simp add: redo_def canRedo_def)
  show ?thesis
    using shape nr nr' r by (simp add: undo_def redo_def executeMoveCtl_snapshots)
qed

theorem commit_after_undo_discards_redo_tail_witness:
  "currentSnapshotIndex (gameState twiceUndoneCtl) = 0
   \<and> length (gameSnapshots (gameState twiceUndoneCtl)) = 3
   \<and> canRedo (gameState twiceUndoneCtl)
   \<and> length (gameSnapshots (gameState (executeMoveCtl kingPawnAdvance twiceUndoneCtl))) = 2
   \<and> \<not> canRedo (gameState (executeMoveCtl kingPawnAdvance twiceUndoneCtl))
   \<and> fst (redo (gameState (executeMoveCtl kingPawnAdvance twiceUndoneCtl))) = None
   \<and> fst (undo (gameState twiceUndoneCtl)) = None"
proof -
  have i: "currentSnapshotIndex (gameState twiceUndoneCtl) = 0"
    and l: "length (gameSnapshots (gameState twiceUndoneCtl)) = 3"
    and c: "canRedo (gameState twiceUndoneCtl)"
    by code_simp+
  have ls: "length (gameSnapshots (saveSnapshot (currentBoard twiceUndoneCtl) (gameState twiceUndoneCtl))) = 2"
    by code_simp
  have a1: "- 1 \<le> currentSnapshotIndex (gameState twiceUndoneCtl)" using i by simp
  have a2: "currentSnapshotIndex (gameState twiceUndoneCtl)
              < int (length (gameSnapshots (gameState twiceUndoneCtl)))" using i l by simp
  show ?thesis
    using commit_after_undo_discards_redo_tail[OF a1 a2, of kingPawnAdvance] i l c ls
    by simp
qed

section \<open>The persistent attack cache is transparent\<close>

subsection \<open>Decimal strings\<close>

lemma digit_table:
  "list_all (\<lambda>n. isDigit (''0123456789'' ! n) \<and> digitValue (''0123456789'' ! n) = n) [0..<10]"
  by code_simp

lemma digit_char:
  assumes "n < 10"
  shows "isDigit (''0123456789'' ! n)" and "digitValue (''0123456789'' ! n) = n"
  using digit_table assms by (simp_all add: list_all_iff)

lemma natStr_small: "n < 10 \<Longrightarrow> natStr n = [''0123456789'' ! n]"
  by (simp add: natStr.simps)

lemma natStr_big: "\<not> n < 10 \<Longrightarrow> natStr n = natStr (n div 10) @ [''0123456789'' ! (n mod 10)]"
  by (subst natStr.simps) simp

lemma natStr_digits: "list_all isDigit (natStr n)"
proof (induction n rule: natStr.induct)
  case (1 n)
  show ?case
  proof (cases "n < 10")
    case True
    then show ?thesis by (simp add: natStr_small digit_char)
  next
    case False
    then show ?thesis using 1 by (simp add: natStr_big digit_char)
  qed
qed

lemma natStr_nonempty: "natStr n \<noteq> []"
  by (cases "n < 10") (simp_all add: natStr_small natStr_big)

lemma strNat_natStr: "strNat (natStr n) = n"
proof (induction n rule: natStr.induct)
  case (1 n)
  show ?case
  proof (cases "n < 10")
    case True
    then show ?thesis by (simp add: natStr_small strNat_def digit_char)
  next
    case False
    then have "strNat (natStr n) = 10 * strNat (natStr (n div 10)) + n mod 10"
      by (simp add: natStr_big strNat_def digit_char)
    then show ?thesis using 1 False by simp
  qed
qed

lemma natStr_inj: "natStr n = natStr m \<Longrightarrow> n = m"
  by (metis strNat_natStr)

lemma numStr_inj: "numStr i = numStr j \<Longrightarrow> i = j"
proof -
  assume eq: "numStr i = numStr j"
  have nodash: "\<And>n. hd (natStr n) \<noteq> CHR ''-''"
  proof -
    fix n
    have "isDigit (hd (natStr n))"
      using natStr_digits[of n] natStr_nonempty[of n] by (cases "natStr n") auto
    then show "hd (natStr n) \<noteq> CHR ''-''" by (auto simp: isDigit_def)
  qed
  show "i = j"
  proof (cases "i < 0"; cases "j < 0")
    assume "i < 0" "j < 0"
    then have "natStr (nat (- i)) = natStr (nat (- j))" using eq by (simp add: numStr_def)
    then have "nat (- i) = nat (- j)" by (rule natStr_inj)
    then show ?thesis using \<open>i < 0\<close> \<open>j < 0\<close> by simp
  next
    assume "i < 0" "\<not> j < 0"
    then have "CHR ''-'' # natStr (nat (- i)) = natStr (nat j)" using eq by (simp add: numStr_def)
    then have "hd (natStr (nat j)) = CHR ''-''" by (metis list.sel(1))
    then show ?thesis using nodash by simp
  next
    assume "\<not> i < 0" "j < 0"
    then have "natStr (nat i) = CHR ''-'' # natStr (nat (- j))" using eq by (simp add: numStr_def)
    then have "hd (natStr (nat i)) = CHR ''-''" by simp
    then show ?thesis using nodash by simp
  next
    assume "\<not> i < 0" "\<not> j < 0"
    then have "natStr (nat i) = natStr (nat j)" using eq by (simp add: numStr_def)
    then have "nat i = nat j" by (rule natStr_inj)
    then show ?thesis using \<open>\<not> i < 0\<close> \<open>\<not> j < 0\<close> by simp
  qed
qed

lemma numStr_chars: "ch \<in> set (numStr i) \<Longrightarrow> isDigit ch \<or> ch = CHR ''-''"
  using natStr_digits by (auto simp: numStr_def list_all_iff split: if_splits)

subsection \<open>Splitting at a separator\<close>

lemma split_first:
  "sep \<notin> set a \<Longrightarrow> sep \<notin> set a' \<Longrightarrow> a @ sep # x = a' @ sep # x' \<Longrightarrow> a = a' \<and> x = x'"
proof (induction a arbitrary: a')
  case Nil
  then show ?case by (cases a') auto
next
  case (Cons h t)
  then show ?case by (cases a') auto
qed

lemma split_last:
  assumes "sep \<notin> set a" "sep \<notin> set a'" "x @ sep # a = x' @ sep # a'"
  shows "a = a' \<and> x = x'"
proof -
  have "rev a @ sep # rev x = rev a' @ sep # rev x'"
    using arg_cong[OF assms(3), of rev] by simp
  moreover have "sep \<notin> set (rev a)" "sep \<notin> set (rev a')" using assms(1,2) by simp_all
  ultimately have "rev a = rev a' \<and> rev x = rev x'"
    by (rule split_first[rotated 2])
  then show ?thesis by simp
qed

subsection \<open>The placement field determines types and colours\<close>

lemma pieceChar_letter: "\<not> isDigit (pieceChar p)" "letterPiece (pieceChar p) = (type p, color p)"
  by (cases "type p"; cases "color p";
      simp add: pieceChar_def upperLetter_def lowerLetter_def isDigit_def letterPiece_def)+

lemma pieceChar_not_sep:
  "pieceChar p \<noteq> CHR ''/''" "pieceChar p \<noteq> CHR '' ''"
  by (cases "type p"; cases "color p";
      simp add: pieceChar_def upperLetter_def lowerLetter_def)+

lemma expandFen_append: "expandFen (a @ b) = expandFen a @ expandFen b"
  by (simp add: expandFen_def)

lemma expandFen_run: "n < 10 \<Longrightarrow> expandFen (natStr n) = replicate n None"
  by (simp add: natStr_small expandFen_def digit_char)

lemma expandFen_Cons_piece: "expandFen (pieceChar p # s) = Some (type p, color p) # expandFen s"
  by (simp add: expandFen_def pieceChar_letter)

lemma expandFen_rowFen:
  "n + length xs < 10 \<Longrightarrow> expandFen (rowFen xs n) = replicate n None @ map squareView xs"
proof (induction xs n rule: rowFen.induct)
  case (1 emptySquares)
  then show ?case by (simp add: expandFen_run) (simp add: expandFen_def)
next
  case (2 p rest emptySquares)
  then have "expandFen (rowFen rest 0) = map squareView rest" by simp
  then show ?case
    using 2 by (simp add: expandFen_append expandFen_run expandFen_Cons_piece squareView_def)
       (simp add: expandFen_def)
next
  case (3 rest emptySquares)
  then have "expandFen (rowFen rest (emptySquares + 1)) = replicate (emptySquares + 1) None @ map squareView rest"
    by simp
  then show ?case by (simp add: squareView_def replicate_app_Cons_same)
qed

lemma rowFen_chars:
  "n + length xs < 10 \<Longrightarrow> ch \<in> set (rowFen xs n) \<Longrightarrow> isDigit ch \<or> (\<exists>p. ch = pieceChar p)"
proof (induction xs n rule: rowFen.induct)
  case (1 emptySquares)
  then show ?case using natStr_digits[of emptySquares] by (auto simp: list_all_iff split: if_splits)
next
  case (2 p rest emptySquares)
  then show ?case using natStr_digits[of emptySquares] by (auto simp: list_all_iff split: if_splits)
next
  case (3 rest emptySquares)
  then show ?case by simp
qed

lemma rowFen_no_sep:
  assumes "n + length xs < 10"
  shows "CHR ''/'' \<notin> set (rowFen xs n)" and "CHR '' '' \<notin> set (rowFen xs n)"
proof -
  show "CHR ''/'' \<notin> set (rowFen xs n)"
  proof
    assume "CHR ''/'' \<in> set (rowFen xs n)"
    then have "isDigit (CHR ''/'') \<or> (\<exists>p. CHR ''/'' = pieceChar p)"
      by (rule rowFen_chars[OF assms])
    then show False using pieceChar_not_sep(1) by (auto simp: isDigit_def) metis
  qed
  show "CHR '' '' \<notin> set (rowFen xs n)"
  proof
    assume "CHR '' '' \<in> set (rowFen xs n)"
    then have "isDigit (CHR '' '') \<or> (\<exists>p. CHR '' '' = pieceChar p)"
      by (rule rowFen_chars[OF assms])
    then show False using pieceChar_not_sep(2) by (auto simp: isDigit_def) metis
  qed
qed

lemma length_rowSquares [simp]: "length (rowSquares board r) = 8"
  by (simp add: rowSquares_def)

lemma rowFen_determines_row:
  assumes "rowFen (rowSquares a r) 0 = rowFen (rowSquares b r) 0"
  shows "map squareView (rowSquares a r) = map squareView (rowSquares b r)"
proof -
  have "expandFen (rowFen (rowSquares a r) 0) = map squareView (rowSquares a r)"
    and "expandFen (rowFen (rowSquares b r) 0) = map squareView (rowSquares b r)"
    by (simp_all add: expandFen_rowFen)
  then show ?thesis using assms by simp
qed

lemma joinRows_Cons:
  "joinRows (x # xs) = (if xs = [] then x else x @ CHR ''/'' # joinRows xs)"
  by (cases xs) simp_all

lemma joinRows_inj:
  "length rs = length rs' \<Longrightarrow> \<forall>x \<in> set rs. CHR ''/'' \<notin> set x \<Longrightarrow> \<forall>x \<in> set rs'. CHR ''/'' \<notin> set x
     \<Longrightarrow> joinRows rs = joinRows rs' \<Longrightarrow> rs = rs'"
proof (induction rs rs' rule: list_induct2)
  case Nil
  then show ?case by simp
next
  case step: (Cons x xs y ys)
  have nx: "CHR ''/'' \<notin> set x" and ny: "CHR ''/'' \<notin> set y"
    using step.prems(1,2) by simp_all
  show ?case
  proof (cases "xs = []")
    case True
    then have "ys = []" using step.hyps by simp
    then show ?thesis using True step.prems(3) by simp
  next
    case False
    then have ysne: "ys \<noteq> []" using step.hyps by auto
    have "x @ CHR ''/'' # joinRows xs = y @ CHR ''/'' # joinRows ys"
      using step.prems(3) False ysne by (simp only: joinRows_Cons if_False)
    then have xy: "x = y \<and> joinRows xs = joinRows ys"
      by (rule split_first[OF nx ny])
    have "xs = ys"
    proof (rule step.IH)
      show "\<forall>x \<in> set xs. CHR ''/'' \<notin> set x" using step.prems(1) by simp
      show "\<forall>x \<in> set ys. CHR ''/'' \<notin> set x" using step.prems(2) by simp
      show "joinRows xs = joinRows ys" using xy by simp
    qed
    then show ?thesis using xy by simp
  qed
qed

lemma placement_as_join:
  "getPiecePlacementFen board = joinRows (map (\<lambda>r. rowFen (rowSquares board r) 0) [7, 6, 5, 4, 3, 2, 1, 0])"
  by (simp add: getPiecePlacementFen_def)

lemma placement_no_space: "CHR '' '' \<notin> set (getPiecePlacementFen board)"
  using rowFen_no_sep(2)[of 0 "rowSquares board r" for r]
  by (simp add: getPiecePlacementFen_def)

lemma grid_rows: "0 \<le> r \<Longrightarrow> r \<le> 7 \<Longrightarrow> r \<in> set [7, 6, 5, 4, 3, 2, 1, (0::int)]"
  by (simp; arith)

lemma placement_determines_view:
  assumes "getPiecePlacementFen a = getPiecePlacementFen b"
  shows "sameView a b"
proof -
  let ?rows = "\<lambda>board. map (\<lambda>r. rowFen (rowSquares board r) 0) [7, 6, 5, 4, 3, 2, 1, 0]"
  have "?rows a = ?rows b"
  proof (rule joinRows_inj)
    show "length (?rows a) = length (?rows b)" by simp
    show "\<forall>x \<in> set (?rows a). CHR ''/'' \<notin> set x"
      using rowFen_no_sep(1)[of 0 "rowSquares a r" for r] by simp
    show "\<forall>x \<in> set (?rows b). CHR ''/'' \<notin> set x"
      using rowFen_no_sep(1)[of 0 "rowSquares b r" for r] by simp
    show "joinRows (?rows a) = joinRows (?rows b)"
      using assms by (simp only: placement_as_join)
  qed
  then have rows: "\<And>r. r \<in> set [7, 6, 5, 4, 3, 2, 1, (0::int)] \<Longrightarrow>
      rowFen (rowSquares a r) 0 = rowFen (rowSquares b r) 0"
    by (simp only: map_eq_conv) 
  have "squareView (sq a r c) = squareView (sq b r c)"
    if "r \<in> set [0..7]" "c \<in> set [0..7]" for r c
  proof -
    have "r \<in> set [7, 6, 5, 4, 3, 2, 1, (0::int)]" using that(1) by (intro grid_rows) auto
    then have "map squareView (rowSquares a r) = map squareView (rowSquares b r)"
      using rows rowFen_determines_row by blast
    then have "map (\<lambda>c. squareView (sq a r c)) [0..7] = map (\<lambda>c. squareView (sq b r c)) [0..7]"
      by (simp add: rowSquares_def comp_def)
    then show ?thesis using that(2) by (simp only: map_eq_conv) 
  qed
  then show ?thesis by (simp add: sameView_def list_all_iff)
qed

subsection \<open>A cache key determines placement, square and colour\<close>

lemma colorStr_inj: "colorStr c = colorStr c' \<Longrightarrow> c = c'"
  by (cases c; cases c') (simp_all add: colorStr_def)

lemma colorStr_no_colon: "CHR '':'' \<notin> set (colorStr c)"
  by (cases c) (simp_all add: colorStr_def)

lemma numStr_no_sep: "CHR '','' \<notin> set (numStr i)" "CHR '':'' \<notin> set (numStr i)"
  using numStr_chars[of _ i] by (auto simp: isDigit_def)

lemma cacheKey_inj:
  assumes "cacheKey a gs pos c = cacheKey b gs' pos' c'"
  shows "getPiecePlacementFen a = getPiecePlacementFen b \<and> pos = pos' \<and> c = c'"
proof -
  let ?Z = "getPositionKey a gs" and ?Z' = "getPositionKey b gs'"
  have "(?Z @ CHR '':'' # numStr (row pos) @ CHR '','' # numStr (col pos)) @ CHR '':'' # colorStr c
      = (?Z' @ CHR '':'' # numStr (row pos') @ CHR '','' # numStr (col pos')) @ CHR '':'' # colorStr c'"
    using assms by (simp add: cacheKey_def)
  then have s1: "colorStr c = colorStr c'
      \<and> ?Z @ CHR '':'' # numStr (row pos) @ CHR '','' # numStr (col pos)
        = ?Z' @ CHR '':'' # numStr (row pos') @ CHR '','' # numStr (col pos')"
    by (rule split_last[OF colorStr_no_colon colorStr_no_colon])
  then have "(?Z @ CHR '':'' # numStr (row pos)) @ CHR '','' # numStr (col pos)
        = (?Z' @ CHR '':'' # numStr (row pos')) @ CHR '','' # numStr (col pos')"
    by simp
  then have s2: "numStr (col pos) = numStr (col pos')
      \<and> ?Z @ CHR '':'' # numStr (row pos) = ?Z' @ CHR '':'' # numStr (row pos')"
    by (rule split_last[OF numStr_no_sep(1) numStr_no_sep(1)])
  then have "?Z @ CHR '':'' # numStr (row pos) = ?Z' @ CHR '':'' # numStr (row pos')" by simp
  then have s3: "numStr (row pos) = numStr (row pos') \<and> ?Z = ?Z'"
    by (rule split_last[OF numStr_no_sep(2) numStr_no_sep(2)])
  then have "\<exists>x x'. getPiecePlacementFen a @ CHR '' '' # x = getPiecePlacementFen b @ CHR '' '' # x'"
    by (auto simp: getPositionKey_def)
  then have p: "getPiecePlacementFen a = getPiecePlacementFen b"
    using split_first[OF placement_no_space placement_no_space] by blast
  have "row pos = row pos'" "col pos = col pos'"
    using s2 s3 numStr_inj by blast+
  then have "pos = pos'" by (cases pos; cases pos') simp
  then show ?thesis using p s1 colorStr_inj by blast
qed

subsection \<open>The attack scan reads only types and colours\<close>

lemma sameViewD:
  "sameView a b \<Longrightarrow> 0 \<le> r \<Longrightarrow> r \<le> 7 \<Longrightarrow> 0 \<le> c \<Longrightarrow> c \<le> 7 \<Longrightarrow>
     squareView (sq a r c) = squareView (sq b r c)"
  by (simp add: sameView_def list_all_iff)

lemma sameView_empty:
  "sameView a b \<Longrightarrow> 0 \<le> r \<Longrightarrow> r \<le> 7 \<Longrightarrow> 0 \<le> c \<Longrightarrow> c \<le> 7 \<Longrightarrow>
     (sq a r c = None) = (sq b r c = None)"
  using sameViewD[of a b r c] by (cases "sq a r c"; cases "sq b r c") (simp_all add: squareView_def)

lemma pathLoop_view:
  "sameView a b \<Longrightarrow> pathLoop a cr cc dRow dCol t = pathLoop b cr cc dRow dCol t"
proof (induction a cr cc dRow dCol t rule: pathLoop.induct)
  case (1 board currentRow currentCol dRow dCol t)
  have l: "pathLoop board currentRow currentCol dRow dCol t =
     (if currentRow \<noteq> row t \<or> currentCol \<noteq> col t
      then (if \<not> isValidCoord \<lparr>row = currentRow, col = currentCol\<rparr> \<or> (dRow = 0 \<and> dCol = 0)
            then False
            else if sq board currentRow currentCol \<noteq> None then False
            else pathLoop board (currentRow + dRow) (currentCol + dCol) dRow dCol t)
      else True)"
    by (rule pathLoop.simps)
  have r: "pathLoop b currentRow currentCol dRow dCol t =
     (if currentRow \<noteq> row t \<or> currentCol \<noteq> col t
      then (if \<not> isValidCoord \<lparr>row = currentRow, col = currentCol\<rparr> \<or> (dRow = 0 \<and> dCol = 0)
            then False
            else if sq b currentRow currentCol \<noteq> None then False
            else pathLoop b (currentRow + dRow) (currentCol + dCol) dRow dCol t)
      else True)"
    by (rule pathLoop.simps)
  show ?case
  proof (cases "(currentRow \<noteq> row t \<or> currentCol \<noteq> col t)
        \<and> isValidCoord \<lparr>row = currentRow, col = currentCol\<rparr> \<and> \<not> (dRow = 0 \<and> dCol = 0)")
    case True
    then have e: "(sq board currentRow currentCol = None) = (sq b currentRow currentCol = None)"
      using sameView_empty[OF "1.prems"] by (simp add: isValidCoord_def)
    show ?thesis
    proof (cases "sq board currentRow currentCol = None")
      case None: True
      have "pathLoop board (currentRow + dRow) (currentCol + dCol) dRow dCol t
          = pathLoop b (currentRow + dRow) (currentCol + dCol) dRow dCol t"
        using "1.IH" True None "1.prems" by blast
      then show ?thesis
        unfolding l r using True None e by auto
    next
      case False
      then show ?thesis
        unfolding l r using False e by auto
    qed
  next
    case False
    then show ?thesis
      unfolding l r by auto
  qed
qed

lemma isPathClear_view: "sameView a b \<Longrightarrow> isPathClear a f t = isPathClear b f t"
  using pathLoop_view[of a b] by (simp add: isPathClear_def Let_def)

lemma isValidMove_view:
  assumes "sameView a b" "type p = type q" "type p \<noteq> Pawn"
  shows "isValidMove p a f t = isValidMove q b f t"
proof -
  have pc: "isPathClear a f t = isPathClear b f t" using assms(1) by (rule isPathClear_view)
  show ?thesis
    using assms(2,3) pc
    by (cases "type q")
       (simp_all add: isValidMove_def queenIsValidMove_def rookIsValidMove_def bishopIsValidMove_def
          knightIsValidMove_def kingIsValidMove_def)
qed

lemma attacksFrom_view:
  assumes "sameView a b" "0 \<le> r" "r \<le> 7" "0 \<le> c" "c \<le> 7"
  shows "attacksFrom a r c pos clr = attacksFrom b r c pos clr"
proof -
  have v: "squareView (sq a r c) = squareView (sq b r c)" using sameViewD[OF assms] .
  show ?thesis
  proof (cases "sq a r c")
    case None
    then have "sq b r c = None" using v by (simp add: squareView_def)
    then show ?thesis using None by (simp add: attacksFrom_def)
  next
    case (Some p)
    then obtain q where q: "sq b r c = Some q" using v by (cases "sq b r c") (simp_all add: squareView_def)
    then have tq: "type p = type q" "color p = color q" using v Some by (simp_all add: squareView_def)
    show ?thesis
      using Some q tq isValidMove_view[OF assms(1) tq(1)]
      by (simp add: attacksFrom_def)
  qed
qed

lemma calculate_view:
  "sameView a b \<Longrightarrow> calculateIsSquareAttacked a pos clr = calculateIsSquareAttacked b pos clr"
  by (simp add: calculateIsSquareAttacked_def list_ex_iff attacksFrom_view)

lemma same_key_same_answer:
  "cacheKey a gs pos c = cacheKey b gs' pos' c' \<Longrightarrow>
     calculateIsSquareAttacked a pos c = calculateIsSquareAttacked b pos' c'"
  using cacheKey_inj[of a gs pos c b gs' pos' c'] placement_determines_view[of a b] calculate_view[of a b]
  by simp

subsection \<open>Every cached answer is the computed answer\<close>

lemma isSquareAttacked_sound:
  assumes "\<And>b gs pos c v. cache (cacheKey b gs pos c) = Some v \<Longrightarrow> v = calculateIsSquareAttacked b pos c"
  shows "fst (isSquareAttacked board position clr gs0 cache) = calculateIsSquareAttacked board position clr"
    and "snd (isSquareAttacked board position clr gs0 cache) (cacheKey b gs pos c) = Some v
           \<Longrightarrow> v = calculateIsSquareAttacked b pos c"
proof -
  show "fst (isSquareAttacked board position clr gs0 cache) = calculateIsSquareAttacked board position clr"
    using assms[of board gs0 position clr]
    by (simp add: isSquareAttacked_def Let_def split: option.split)
  assume h: "snd (isSquareAttacked board position clr gs0 cache) (cacheKey b gs pos c) = Some v"
  show "v = calculateIsSquareAttacked b pos c"
  proof (cases "cache (cacheKey board gs0 position clr)")
    case (Some hit)
    then show ?thesis using h assms by (simp add: isSquareAttacked_def)
  next
    case None
    show ?thesis
    proof (cases "cacheKey b gs pos c = cacheKey board gs0 position clr")
      case True
      then have "v = calculateIsSquareAttacked board position clr"
        using h None by (simp add: isSquareAttacked_def Let_def)
      then show ?thesis using same_key_same_answer[OF True] by simp
    next
      case False
      then show ?thesis using h None assms by (simp add: isSquareAttacked_def Let_def)
    qed
  qed
qed

lemma runQueries_sound:
  "runQueries qs Map.empty (cacheKey b gs pos c) = Some v \<Longrightarrow> v = calculateIsSquareAttacked b pos c"
proof (induction qs arbitrary: b gs pos c v rule: rev_induct)
  case Nil
  then show ?case by (simp add: runQueries_def)
next
  case (snoc q qs)
  obtain qb qpos qc qgs where q: "q = (qb, qpos, qc, qgs)" by (cases q) auto
  have "runQueries (qs @ [q]) Map.empty = snd (isSquareAttacked qb qpos qc qgs (runQueries qs Map.empty))"
    by (simp add: runQueries_def q)
  then show ?case
    using snoc.prems isSquareAttacked_sound(2)[of "runQueries qs Map.empty" qb qpos qc qgs b gs pos c v]
      snoc.IH by simp
qed

text \<open>
  C9. For every board, square, attacking colour and game state, and for the cache left by
  any sequence of earlier queries (on any boards and states), \<open>isSquareAttacked\<close> returns
  what the direct computation \<open>calculateIsSquareAttacked\<close> returns: a hit can only come
  from a key built from the same placement, square and colour, and the scan depends on
  nothing else.
\<close>

theorem persistent_cache_transparent:
  "fst (isSquareAttacked board position attackingColor gs (runQueries qs Map.empty))
     = calculateIsSquareAttacked board position attackingColor"
  using runQueries_sound by (rule isSquareAttacked_sound(1))

section \<open>Games played from the initial position\<close>

text \<open>
  C8. On the initial board with White to move the generator returns exactly 20 moves; after
  e2-e4 is chosen from that list and committed, it is Black's turn and the generator
  returns exactly 20 moves.
\<close>

theorem initial_position_twenty_moves:
  "length (generateAllLegalMoves createInitialBoard White initialGameState) = 20
   \<and> moveCountView (playMove ((1, 4), (3, 4)) initGame) = (Black, Some kingPawnAdvance, 20)"
  by code_simp

text \<open>
  C2. The claim: every move the generator returns leaves the mover's own king unattacked.
  After 1. e4 e5 2. Qh5 the black f-pawn is pinned against the king on e8, yet the generator
  returns f7-f6 for Black, and on the board after that move e8 is attacked by White. The
  pass-scoped cache answers every later probe of the king's square with the result of the
  first one (a7-a6, which is safe).
\<close>

theorem generator_returns_pinned_pawn_move:
  "soundnessView (playMoves queenSortie initGame) (6, 5) (5, 5)
     = (''rnbqkbnr/pppp1ppp/8/4p2Q/4P3/8/PPPP1PPP/RNB1KBNR b KQkq -'',
        Some pinnedPawnPush, Some True)"
  by code_simp

text \<open>
  C4. The claim: in every state reached through committed moves the recorded king squares
  are the squares the kings stand on. After 1. e4 e5 2. Nf3 Nc6 3. Bc4 Bc5 4. O-O, each move
  chosen from the generated list, the last move is the kingside castling, the game state
  records the white king on g1, and the white king stands on e1: the board was not changed
  by the castling move.
\<close>

theorem king_square_wrong_after_castling:
  "kingView (playMoves italianCastle initGame)
     = (''r1bqk1nr/pppp1ppp/2n5/2b1p3/2B1P3/5N2/PPPP1PPP/RNBQK2R b KQkq -'',
        Some (Some Kingside),
        (\<lparr>row = 0, col = 6\<rparr>, Some \<lparr>row = 0, col = 4\<rparr>),
        (\<lparr>row = 7, col = 4\<rparr>, Some \<lparr>row = 7, col = 4\<rparr>))"
  by code_simp


end
